theory Spec2Isabelle
  imports Complex_Main "HOL-Library.Word" "HOL-Library.State_Monad"
begin

unbundle bit_operations_syntax

section \<open>The track selection of FemtoUniverse\<close>

text \<open>
  A shallow embedding of \<^verbatim>\<open>FemtoUniverseTrackSelection.h\<close>: the catalogue of the fifteen
  track selection variables, the configuration step \<^verbatim>\<open>init\<close>, the fast filter
  \<^verbatim>\<open>isSelectedMinimal\<close> and the bit-wise container built by \<^verbatim>\<open>getCutContainer\<close>.

  Conventions of the embedding.
  \<^item> \<^verbatim>\<open>float\<close> values are real numbers: the comparisons of the source are exact, and
    rounding of the few arithmetic operations is not modelled.
  \<^item> The enumeration \<^verbatim>\<open>TrackSel\<close> is an unscoped C++ enum, so a variable of that type can
    hold an integer that is none of the fifteen enumerators. It is modelled by its integer
    value, the enumerators being the numbers 0 to 14.
  \<^item> The bit-wise container type \<^verbatim>\<open>CutContainerType\<close> is a template parameter; it is a
    word of any length \<open>'w\<close>.
\<close>

subsection \<open>The enumeration of selection variables\<close>

type_synonym TrackSel = nat

definition kSign :: TrackSel where "kSign = 0"
definition kpTMin :: TrackSel where "kpTMin = 1"
definition kpTMax :: TrackSel where "kpTMax = 2"
definition kEtaMax :: TrackSel where "kEtaMax = 3"
definition kTPCnClsMin :: TrackSel where "kTPCnClsMin = 4"
definition kTPCfClsMin :: TrackSel where "kTPCfClsMin = 5"
definition kTPCcRowsMin :: TrackSel where "kTPCcRowsMin = 6"
definition kTPCsClsMax :: TrackSel where "kTPCsClsMax = 7"
definition kTPCfracsClsMax :: TrackSel where "kTPCfracsClsMax = 8"
definition kITSnClsMin :: TrackSel where "kITSnClsMin = 9"
definition kITSnClsIbMin :: TrackSel where "kITSnClsIbMin = 10"
definition kDCAxyMax :: TrackSel where "kDCAxyMax = 11"
definition kDCAzMax :: TrackSel where "kDCAzMax = 12"
definition kDCAMin :: TrackSel where "kDCAMin = 13"
definition kPIDnSigmaMax :: TrackSel where "kPIDnSigmaMax = 14"

text \<open>
  Modelled from the spec: the enumeration \<^verbatim>\<open>femto_universe_selection::SelectionType\<close> is
  declared in \<^verbatim>\<open>FemtoUniverseSelection.h\<close>, which is not among the sources. The spec lists
  its five comparison kinds (Equal, LowerLimit, UpperLimit, AbsLowerLimit, AbsUpperLimit);
  the enumerator names are those the source uses.
\<close>

datatype SelectionType = kUpperLimit | kAbsUpperLimit | kLowerLimit | kAbsLowerLimit | kEqual

subsection \<open>The static catalogue\<close>

definition kNtrackSelection :: nat where
  "kNtrackSelection = 15"

definition kSelectionNames :: "string list" where
  "kSelectionNames =
    [''Sign'',
     ''PtMin'',
     ''PtMax'',
     ''EtaMax'',
     ''TPCnClsMin'',
     ''TPCfClsMin'',
     ''TPCcRowsMin'',
     ''TPCsClsMax'',
     ''TPCfracsClsMax'',
     ''ITSnClsMin'',
     ''ITSnClsIbMin'',
     ''DCAxyMax'',
     ''DCAzMax'',
     ''DCAMin'',
     ''PIDnSigmaMax'']"

definition kSelectionTypes :: "SelectionType list" where
  "kSelectionTypes =
    [kEqual,
     kLowerLimit,
     kUpperLimit,
     kAbsUpperLimit,
     kLowerLimit,
     kLowerLimit,
     kLowerLimit,
     kUpperLimit,
     kUpperLimit,
     kLowerLimit,
     kLowerLimit,
     kAbsUpperLimit,
     kAbsUpperLimit,
     kAbsUpperLimit,
     kAbsUpperLimit]"

definition kSelectionHelper :: "string list" where
  "kSelectionHelper =
    [''Sign of the track'',
     ''Minimal pT (GeV/c)'',
     ''Maximal pT (GeV/c)'',
     ''Maximal eta'',
     ''Minimum number of TPC clusters'',
     ''Minimum fraction of crossed rows/findable clusters'',
     ''Minimum number of crossed TPC rows'',
     ''Maximal number of shared TPC cluster'',
     ''Maximal number of fraction of shared TPC cluster'',
     ''Minimum number of ITS clusters'',
     ''Minimum number of ITS clusters in the inner barrel'',
     ''Maximal DCA_xy (cm)'',
     ''Maximal DCA_z (cm)'',
     ''Minimal DCA (cm)'',
     ''Maximal PID (nSigma)'']"

text \<open>
  The three accessors index the tables with the selection variable. An index outside the
  table is a read past a C array, which has no defined result; the model returns \<open>None\<close>
  there.
\<close>

definition getSelectionName :: "TrackSel \<Rightarrow> string \<Rightarrow> string \<Rightarrow> string option" where
  "getSelectionName iSel prefix suffix =
    (if iSel < kNtrackSelection
     then (let outString = prefix;
               outString = outString @ kSelectionNames ! iSel;
               outString = outString @ suffix
           in Some outString)
     else None)"

definition getSelectionType :: "TrackSel \<Rightarrow> SelectionType option" where
  "getSelectionType iSel =
    (if iSel < kNtrackSelection then Some (kSelectionTypes ! iSel) else None)"

definition getSelectionHelper :: "TrackSel \<Rightarrow> string \<Rightarrow> string option" where
  "getSelectionHelper iSel prefix =
    (if iSel < kNtrackSelection
     then (let outString = prefix;
               outString = outString @ kSelectionHelper ! iSel
           in Some outString)
     else None)"

text \<open>
  The loop of \<^verbatim>\<open>findSelectionIndex\<close>, started at \<open>index\<close>: it returns the first index
  whose prefixed name equals \<open>obs\<close>, and \<open>-1\<close> when the table is exhausted.
\<close>

function findSelectionIndex_from :: "string \<Rightarrow> string \<Rightarrow> nat \<Rightarrow> int" where
  "findSelectionIndex_from obs prefix index =
    (if index < kNtrackSelection
     then (let comp = prefix @ kSelectionNames ! index
           in if obs = comp then int index
              else findSelectionIndex_from obs prefix (index + 1))
     else - 1)"
  by pat_completeness auto
termination
  by (relation "measure (\<lambda>(obs, prefix, index). kNtrackSelection - index)") auto

declare findSelectionIndex_from.simps [simp del]

definition findSelectionIndex :: "string \<Rightarrow> string \<Rightarrow> int" where
  "findSelectionIndex obs prefix = findSelectionIndex_from obs prefix 0"

subsection \<open>The selection framework of the base class\<close>

text \<open>
  Modelled from the spec: the class \<^verbatim>\<open>FemtoUniverseSelection\<close> (one configured cut) is
  declared in \<^verbatim>\<open>FemtoUniverseSelection.h\<close>, which is not among the sources. The spec
  describes it as the triple of a variable kind, a comparison kind and a threshold.
\<close>

record SelectionCriterion =
  variableKind :: TrackSel
  comparisonKind :: SelectionType
  threshold :: real

definition getSelectionVariable :: "SelectionCriterion \<Rightarrow> TrackSel" where
  \<comment> \<open>Modelled from the spec: the accessor of the variable kind of a criterion.\<close>
  "getSelectionVariable sel = variableKind sel"

definition isSelected :: "SelectionCriterion \<Rightarrow> real \<Rightarrow> bool" where
  \<comment> \<open>Modelled from the spec: the test of \<^verbatim>\<open>testAndSetBit\<close>, "Equal: observable == threshold;
     LowerLimit: observable >= threshold; UpperLimit: observable <= threshold;
     AbsLowerLimit: |observable| >= threshold; AbsUpperLimit: |observable| <= threshold".\<close>
  "isSelected sel observable =
    (case comparisonKind sel of
       kEqual \<Rightarrow> observable = threshold sel
     | kLowerLimit \<Rightarrow> observable \<ge> threshold sel
     | kUpperLimit \<Rightarrow> observable \<le> threshold sel
     | kAbsLowerLimit \<Rightarrow> \<bar>observable\<bar> \<ge> threshold sel
     | kAbsUpperLimit \<Rightarrow> \<bar>observable\<bar> \<le> threshold sel)"

definition checkSelectionSetBit ::
  "SelectionCriterion \<Rightarrow> real \<Rightarrow> 'w::len word \<Rightarrow> nat \<Rightarrow> 'w word \<times> nat" where
  \<comment> \<open>Modelled from the spec: \<^verbatim>\<open>testAndSetBit\<close>, "On pass, sets bit bitIndex in
     outputContainer; bit index increments once per evaluated (non-PID) criterion, in
     registration order. No side effect on failure." The container and the counter are
     reference parameters of the source; the model returns both.\<close>
  "checkSelectionSetBit sel observable cutContainer counter =
    (if isSelected sel observable
     then (cutContainer OR push_bit counter 1, counter + 1)
     else (cutContainer, counter + 1))"

subsection \<open>Tracks\<close>

text \<open>
  The track is a template parameter of the source, read through its accessors only. The
  model is a record of the observables the selection reads, each a real number; the
  n-sigma values of the PID response are looked up by the species identifier.
\<close>

type_synonym PID = nat

record Track =
  sign :: real
  pt :: real
  eta :: real
  tpcNClsFound :: real
  tpcCrossedRowsOverFindableCls :: real
  tpcNClsCrossedRows :: real
  tpcNClsShared :: real
  tpcFractionSharedCls :: real
  itsNCls :: real
  itsNClsInnerBarrel :: real
  dcaXY :: real
  dcaZ :: real
  tpcNSigma :: "PID \<Rightarrow> real"
  tofNSigma :: "PID \<Rightarrow> real"

definition getNsigmaTPC :: "Track \<Rightarrow> PID \<Rightarrow> real" where
  "getNsigmaTPC track pid = tpcNSigma track pid"

definition getNsigmaTOF :: "Track \<Rightarrow> PID \<Rightarrow> real" where
  "getNsigmaTOF track pid = tofNSigma track pid"

subsection \<open>The state of the selection object\<close>

text \<open>
  The histogram registry is an external collaborator; only the names of the histograms
  booked in it are kept. The members \<open>mSelections\<close> and \<open>mHistogramRegistry\<close> are those of
  the base class \<^verbatim>\<open>FemtoUniverseObjectSelection\<close>.
\<close>

type_synonym HistogramRegistry = "string list"

record FemtoUniverseTrackSelection =
  mHistogramRegistry :: "HistogramRegistry option"
  mSelections :: "SelectionCriterion list"
  nRejectNotPropagatedTracks :: bool
  nPtMinSel :: int
  nPtMaxSel :: int
  nEtaSel :: int
  nTPCnMinSel :: int
  nTPCfMinSel :: int
  nTPCcMinSel :: int
  nTPCsMaxSel :: int
  nTPCsFracMaxSel :: int
  nITScMinSel :: int
  nITScIbMinSel :: int
  nDCAxyMaxSel :: int
  nDCAzMaxSel :: int
  nDCAMinSel :: int
  nPIDnSigmaSel :: int
  pTMin :: real
  pTMax :: real
  etaMax :: real
  nClsMin :: real
  fClsMin :: real
  cTPCMin :: real
  sTPCMax :: real
  fracsTPCMax :: real
  nITSclsMin :: real
  nITSclsIbMin :: real
  dcaXYMax :: real
  dcaZMax :: real
  dcaMin :: real
  nSigmaPIDMax :: real
  nSigmaPIDOffsetTPC :: real
  nSigmaPIDOffsetTOF :: real
  kPIDspecies :: "PID list"

definition getNSelections :: "FemtoUniverseTrackSelection \<Rightarrow> nat" where
  \<comment> \<open>Modelled from the spec: the number of registered criteria (a member function of the
     base class, which is not among the sources).\<close>
  "getNSelections this = length (mSelections this)"

definition getNSelectionsOf :: "FemtoUniverseTrackSelection \<Rightarrow> TrackSel \<Rightarrow> nat" where
  \<comment> \<open>Modelled from the spec: "Count of criteria for that kind", the overload of
     \<^verbatim>\<open>getNSelections\<close> that takes a selection variable.\<close>
  "getNSelectionsOf this selVar =
    length (filter (\<lambda>sel. getSelectionVariable sel = selVar) (mSelections this))"

definition setPIDSpecies :: "PID list \<Rightarrow> FemtoUniverseTrackSelection \<Rightarrow> FemtoUniverseTrackSelection" where
  "setPIDSpecies pids this = this\<lparr>kPIDspecies := kPIDspecies this @ pids\<rparr>"

definition getSigmaPIDMax :: "FemtoUniverseTrackSelection \<Rightarrow> real" where
  "getSigmaPIDMax this = nSigmaPIDMax this"

definition setRejectNotPropagatedTracks ::
  "bool \<Rightarrow> FemtoUniverseTrackSelection \<Rightarrow> FemtoUniverseTrackSelection" where
  "setRejectNotPropagatedTracks reject this = this\<lparr>nRejectNotPropagatedTracks := reject\<rparr>"

definition setnSigmaPIDOffset ::
  "real \<Rightarrow> real \<Rightarrow> FemtoUniverseTrackSelection \<Rightarrow> FemtoUniverseTrackSelection" where
  "setnSigmaPIDOffset offsetTPC offsetTOF this =
    this\<lparr>nSigmaPIDOffsetTPC := offsetTPC, nSigmaPIDOffsetTOF := offsetTOF\<rparr>"

subsection \<open>Configuration: \<^verbatim>\<open>init\<close>\<close>

datatype error = NumberOfSelectionsTooLarge

definition histogramNames :: "string list" where
  "histogramNames =
    [''/hPt'', ''/hEta'', ''/hPhi'', ''/hTPCfindable'', ''/hTPCfound'',
     ''/hTPCcrossedOverFindalbe'', ''/hTPCcrossedRows'', ''/hTPCfindableVsCrossed'',
     ''/hTPCshared'', ''/hTPCfractionSharedCls'', ''/hITSclusters'', ''/hITSclustersIB'',
     ''/hDCAxy'', ''/hDCAz'', ''/hDCA'', ''/hTPCdEdX'',
     ''/nSigmaTPC_el'', ''/nSigmaTPC_pi'', ''/nSigmaTPC_K'', ''/nSigmaTPC_p'', ''/nSigmaTPC_d'',
     ''/nSigmaTOF_el'', ''/nSigmaTOF_pi'', ''/nSigmaTOF_K'', ''/nSigmaTOF_p'', ''/nSigmaTOF_d'',
     ''/nSigmaComb_el'', ''/nSigmaComb_pi'', ''/nSigmaComb_K'', ''/nSigmaComb_p'',
     ''/nSigmaComb_d'']"

definition addHistograms :: "string \<Rightarrow> HistogramRegistry \<Rightarrow> HistogramRegistry" where
  "addHistograms folderName registry = registry @ map (\<lambda>name. folderName @ name) histogramNames"

text \<open>
  The second half of \<^verbatim>\<open>init\<close>: the counts and the collapsed thresholds of the members.
  \<^verbatim>\<open>getMinimalSelection\<close> is a member function of the base class, which is not among the
  sources; it is a parameter of the model.
\<close>

definition setCuts ::
  "(SelectionCriterion list \<Rightarrow> TrackSel \<Rightarrow> SelectionType \<Rightarrow> real) \<Rightarrow>
   FemtoUniverseTrackSelection \<Rightarrow> FemtoUniverseTrackSelection" where
  "setCuts getMinimalSelection this =
    this\<lparr>nPtMinSel := int (getNSelectionsOf this kpTMin),
         nPtMaxSel := int (getNSelectionsOf this kpTMax),
         nEtaSel := int (getNSelectionsOf this kEtaMax),
         nTPCnMinSel := int (getNSelectionsOf this kTPCnClsMin),
         nTPCfMinSel := int (getNSelectionsOf this kTPCfClsMin),
         nTPCcMinSel := int (getNSelectionsOf this kTPCcRowsMin),
         nTPCsMaxSel := int (getNSelectionsOf this kTPCsClsMax),
         nTPCsFracMaxSel := int (getNSelectionsOf this kTPCfracsClsMax),
         nITScMinSel := int (getNSelectionsOf this kITSnClsMin),
         nITScIbMinSel := int (getNSelectionsOf this kITSnClsIbMin),
         nDCAxyMaxSel := int (getNSelectionsOf this kDCAxyMax),
         nDCAzMaxSel := int (getNSelectionsOf this kDCAzMax),
         nDCAMinSel := int (getNSelectionsOf this kDCAMin),
         nPIDnSigmaSel := int (getNSelectionsOf this kPIDnSigmaMax),
         pTMin := getMinimalSelection (mSelections this) kpTMin kLowerLimit,
         pTMax := getMinimalSelection (mSelections this) kpTMax kUpperLimit,
         etaMax := getMinimalSelection (mSelections this) kEtaMax kAbsUpperLimit,
         nClsMin := getMinimalSelection (mSelections this) kTPCnClsMin kLowerLimit,
         fClsMin := getMinimalSelection (mSelections this) kTPCfClsMin kLowerLimit,
         cTPCMin := getMinimalSelection (mSelections this) kTPCcRowsMin kLowerLimit,
         sTPCMax := getMinimalSelection (mSelections this) kTPCsClsMax kUpperLimit,
         fracsTPCMax := getMinimalSelection (mSelections this) kTPCfracsClsMax kUpperLimit,
         nITSclsMin := getMinimalSelection (mSelections this) kITSnClsMin kLowerLimit,
         nITSclsIbMin := getMinimalSelection (mSelections this) kITSnClsIbMin kLowerLimit,
         dcaXYMax := getMinimalSelection (mSelections this) kDCAxyMax kAbsUpperLimit,
         dcaZMax := getMinimalSelection (mSelections this) kDCAzMax kAbsUpperLimit,
         dcaMin := getMinimalSelection (mSelections this) kDCAMin kAbsLowerLimit,
         nSigmaPIDMax := getMinimalSelection (mSelections this) kPIDnSigmaMax kAbsUpperLimit\<rparr>"

text \<open>
  \<^verbatim>\<open>init\<close>. The template parameters are the first three arguments: the size in bytes of
  the container type and the two name strings that the absent tables
  \<^verbatim>\<open>ParticleTypeName\<close> and \<^verbatim>\<open>TrackTypeName\<close> give for \<open>part\<close> and \<open>tracktype\<close>. The
  registry pointer is \<open>None\<close> when null. \<^verbatim>\<open>LOG(fatal)\<close> ends the program; it is the error
  result. The numbers of selections are natural numbers here (the source subtracts two
  unsigned counts, the second at most the first).
\<close>

definition init ::
  "nat \<Rightarrow> string \<Rightarrow> string \<Rightarrow>
   (SelectionCriterion list \<Rightarrow> TrackSel \<Rightarrow> SelectionType \<Rightarrow> real) \<Rightarrow>
   HistogramRegistry option \<Rightarrow> FemtoUniverseTrackSelection \<Rightarrow>
   error + FemtoUniverseTrackSelection" where
  "init sizeofCutContainerType particleTypeName trackTypeName getMinimalSelection registry this =
    (case registry of
       Some reg \<Rightarrow>
         (let folderName = particleTypeName @ ''/'' @ trackTypeName;
              nSelections = getNSelections this - getNSelectionsOf this kPIDnSigmaMax
          in if nSelections > 8 * sizeofCutContainerType
             then Inl NumberOfSelectionsTooLarge
             else Inr (setCuts getMinimalSelection
                        (this\<lparr>mHistogramRegistry := Some (addHistograms folderName reg)\<rparr>)))
     | None \<Rightarrow> Inr (setCuts getMinimalSelection this))"

subsection \<open>The fast filter: \<^verbatim>\<open>isSelectedMinimal\<close>\<close>

text \<open>
  The loop over the TPC n-sigma values of the configured species: \<open>isFulfilled\<close> becomes
  true as soon as one value, shifted by the offset, is below the maximum.
\<close>

primrec pidTPCLoop :: "FemtoUniverseTrackSelection \<Rightarrow> real list \<Rightarrow> bool \<Rightarrow> bool" where
  "pidTPCLoop this [] isFulfilled = isFulfilled"
| "pidTPCLoop this (pidTPCVal # rest) isFulfilled =
    pidTPCLoop this rest
      (if \<bar>pidTPCVal - nSigmaPIDOffsetTPC this\<bar> < nSigmaPIDMax this then True else isFulfilled)"

definition isSelectedMinimal :: "FemtoUniverseTrackSelection \<Rightarrow> Track \<Rightarrow> bool" where
  "isSelectedMinimal this track =
    (let pT = pt track;
         eta = eta track;
         tpcNClsF = tpcNClsFound track;
         tpcRClsC = tpcCrossedRowsOverFindableCls track;
         tpcNClsC = tpcNClsCrossedRows track;
         tpcNClsS = tpcNClsShared track;
         tpcNClsFracS = tpcFractionSharedCls track;
         itsNCls = itsNCls track;
         itsNClsIB = itsNClsInnerBarrel track;
         dcaXY = dcaXY track;
         dcaZ = dcaZ track;
         dca = Track.dcaXY track;
         pidTPC = map (getNsigmaTPC track) (kPIDspecies this);
         pidTOF = map (getNsigmaTOF track) (kPIDspecies this)
     in if nPtMinSel this > 0 \<and> pT < pTMin this then False
        else if nPtMaxSel this > 0 \<and> pT > pTMax this then False
        else if nEtaSel this > 0 \<and> \<bar>eta\<bar> > etaMax this then False
        else if nTPCnMinSel this > 0 \<and> tpcNClsF < nClsMin this then False
        else if nTPCfMinSel this > 0 \<and> tpcRClsC < fClsMin this then False
        else if nTPCcMinSel this > 0 \<and> tpcNClsC < cTPCMin this then False
        else if nTPCsMaxSel this > 0 \<and> tpcNClsS > sTPCMax this then False
        else if nTPCsFracMaxSel this > 0 \<and> tpcNClsFracS > fracsTPCMax this then False
        else if nITScMinSel this > 0 \<and> itsNCls < nITSclsMin this then False
        else if nITScIbMinSel this > 0 \<and> itsNClsIB < nITSclsIbMin this then False
        else if nDCAxyMaxSel this > 0 \<and> \<bar>dcaXY\<bar> > dcaXYMax this then False
        else if nDCAzMaxSel this > 0 \<and> \<bar>dcaZ\<bar> > dcaZMax this then False
        else if nDCAMinSel this > 0 \<and> \<bar>dca\<bar> < dcaMin this then False
        else if nRejectNotPropagatedTracks this \<and> \<bar>dca\<bar> > 1000 then False
        else if nPIDnSigmaSel this > 0
          then (let isFulfilled = pidTPCLoop this pidTPC False
                in if \<not> isFulfilled then isFulfilled else True)
        else True)"

subsection \<open>The bit-wise container: \<^verbatim>\<open>getCutContainer\<close>\<close>

text \<open>
  The range-based loop \<^verbatim>\<open>for (auto& sel : mSelections)\<close> visits the criteria by
  reference, so its body may write to the criterion as well as to the local variables.
  The loop is modelled for any body: the body returns the criterion as it leaves it next
  to the new local state, and the loop returns the criteria as the bodies left them.
\<close>

primrec forEachSelection ::
  "(SelectionCriterion \<Rightarrow> 's \<Rightarrow> SelectionCriterion \<times> 's) \<Rightarrow>
   SelectionCriterion list \<Rightarrow> 's \<Rightarrow> SelectionCriterion list \<times> 's" where
  "forEachSelection body [] st = ([], st)"
| "forEachSelection body (sel # sels) st =
    (let (sel', st') = body sel st;
         (sels', st'') = forEachSelection body sels st'
     in (sel' # sels', st''))"

text \<open>
  The \<^verbatim>\<open>switch\<close> on the selection variable. The local constants \<open>sign\<close>, \<open>pT\<close>, \<open>eta\<close>
  and so on, which the source reads from the track before the loop, are the accessors of
  the track here; \<open>dca\<close> is computed before the loop and passed in. A value that matches no
  \<^verbatim>\<open>case\<close> label, and the label \<open>kPIDnSigmaMax\<close>, leave \<open>observable\<close> as it was.
\<close>

definition switchObservable :: "Track \<Rightarrow> real \<Rightarrow> TrackSel \<Rightarrow> real \<Rightarrow> real" where
  "switchObservable track dca selVariable observable =
    (if selVariable = kSign then sign track
     else if selVariable = kpTMin \<or> selVariable = kpTMax then pt track
     else if selVariable = kEtaMax then eta track
     else if selVariable = kTPCnClsMin then tpcNClsFound track
     else if selVariable = kTPCfClsMin then tpcCrossedRowsOverFindableCls track
     else if selVariable = kTPCcRowsMin then tpcNClsCrossedRows track
     else if selVariable = kTPCsClsMax then tpcNClsShared track
     else if selVariable = kTPCfracsClsMax then tpcFractionSharedCls track
     else if selVariable = kITSnClsMin then itsNCls track
     else if selVariable = kITSnClsIbMin then itsNClsInnerBarrel track
     else if selVariable = kDCAxyMax then dcaXY track
     else if selVariable = kDCAzMax then dcaZ track
     else if selVariable = kDCAMin then dca
     else if selVariable = kPIDnSigmaMax then observable
     else observable)"

text \<open>
  The inner loop over the species, for a criterion on the PID n-sigma. The vectors \<open>pidTPC\<close>
  and \<open>pidTOF\<close> hold one value per species, so \<^verbatim>\<open>at(i)\<close> never throws.
  \<^verbatim>\<open>checkSelectionSetBitPID\<close> is a member function of the absent class
  \<^verbatim>\<open>FemtoUniverseSelection\<close>; the specification does not fix where it puts its bit, so
  it is a parameter of the model: it takes the criterion, the observable and the PID
  container and returns the new PID container.
\<close>

definition pidSpeciesLoop ::
  "(SelectionCriterion \<Rightarrow> real \<Rightarrow> 'w::len word \<Rightarrow> 'w word) \<Rightarrow>
   FemtoUniverseTrackSelection \<Rightarrow> real list \<Rightarrow> real list \<Rightarrow> SelectionCriterion \<Rightarrow>
   'w word \<Rightarrow> 'w word" where
  "pidSpeciesLoop checkSelectionSetBitPID this pidTPC pidTOF sel outputPID =
    fold (\<lambda>i outputPID.
            let pidTPCVal = pidTPC ! i - nSigmaPIDOffsetTPC this;
                pidTOFVal = pidTOF ! i - nSigmaPIDOffsetTOF this;
                pidComb = sqrt (pidTPCVal * pidTPCVal + pidTOFVal * pidTOFVal);
                outputPID = checkSelectionSetBitPID sel pidTPCVal outputPID;
                outputPID = checkSelectionSetBitPID sel pidComb outputPID
            in outputPID)
         [0..<length (kPIDspecies this)] outputPID"

text \<open>
  The body of the loop over the criteria. The local state is the tuple of \<open>observable\<close>,
  \<open>output\<close>, \<open>counter\<close> and \<open>outputPID\<close>. The body calls member functions of the criterion
  only; by the specification these write to the container (and the counter), so the
  criterion is returned as it was.
\<close>

definition cutContainerBody ::
  "(SelectionCriterion \<Rightarrow> real \<Rightarrow> 'w::len word \<Rightarrow> 'w word) \<Rightarrow>
   FemtoUniverseTrackSelection \<Rightarrow> Track \<Rightarrow> real \<Rightarrow> real list \<Rightarrow> real list \<Rightarrow>
   SelectionCriterion \<Rightarrow> real \<times> 'w word \<times> nat \<times> 'w word \<Rightarrow>
   SelectionCriterion \<times> real \<times> 'w word \<times> nat \<times> 'w word" where
  "cutContainerBody checkSelectionSetBitPID this track dca pidTPC pidTOF sel st =
    (case st of (observable, output, counter, outputPID) \<Rightarrow>
      (let selVariable = getSelectionVariable sel
       in if selVariable = kPIDnSigmaMax
          then (sel, observable, output, counter,
                pidSpeciesLoop checkSelectionSetBitPID this pidTPC pidTOF sel outputPID)
          else (let observable = switchObservable track dca selVariable observable;
                    (output, counter) = checkSelectionSetBit sel observable output counter
                in (sel, observable, output, counter, outputPID))))"

text \<open>
  \<^verbatim>\<open>getCutContainer\<close> with its local variables. Next to the two containers the model
  returns the selection object with the criteria as the loop returns them.
\<close>

definition getCutContainer_call ::
  "(SelectionCriterion \<Rightarrow> real \<Rightarrow> 'w::len word \<Rightarrow> 'w word) \<Rightarrow>
   FemtoUniverseTrackSelection \<Rightarrow> Track \<Rightarrow>
   ('w word \<times> 'w word) \<times> FemtoUniverseTrackSelection" where
  "getCutContainer_call checkSelectionSetBitPID this track =
    (let output = 0;
         counter = 0;
         outputPID = 0;
         dca = sqrt ((dcaXY track)\<^sup>2 + (dcaZ track)\<^sup>2);
         pidTPC = map (getNsigmaTPC track) (kPIDspecies this);
         pidTOF = map (getNsigmaTOF track) (kPIDspecies this);
         observable = 0;
         (selections, observable, output, counter, outputPID) =
           forEachSelection
             (cutContainerBody checkSelectionSetBitPID this track dca pidTPC pidTOF)
             (mSelections this) (observable, output, counter, outputPID)
     in ((output, outputPID), this\<lparr>mSelections := selections\<rparr>))"

definition getCutContainer ::
  "(SelectionCriterion \<Rightarrow> real \<Rightarrow> 'w::len word \<Rightarrow> 'w word) \<Rightarrow>
   FemtoUniverseTrackSelection \<Rightarrow> Track \<Rightarrow> 'w word \<times> 'w word" where
  "getCutContainer checkSelectionSetBitPID this track =
    fst (getCutContainer_call checkSelectionSetBitPID this track)"

text \<open>
  Two notions for stating properties of the loop: the criteria that take a bit of the
  ordinary container (all but those on the PID n-sigma), and the local state in which the
  loop of \<^verbatim>\<open>getCutContainer\<close> ends when it visits the criteria \<open>sels\<close> from the state \<open>st\<close>.
\<close>

definition nonPID :: "SelectionCriterion list \<Rightarrow> SelectionCriterion list" where
  "nonPID sels = filter (\<lambda>sel. getSelectionVariable sel \<noteq> kPIDnSigmaMax) sels"

definition cutLoopState ::
  "(SelectionCriterion \<Rightarrow> real \<Rightarrow> 'w::len word \<Rightarrow> 'w word) \<Rightarrow>
   FemtoUniverseTrackSelection \<Rightarrow> Track \<Rightarrow> SelectionCriterion list \<Rightarrow>
   real \<times> 'w word \<times> nat \<times> 'w word \<Rightarrow> real \<times> 'w word \<times> nat \<times> 'w word" where
  "cutLoopState checkSelectionSetBitPID this track sels st =
    snd (forEachSelection
          (cutContainerBody checkSelectionSetBitPID this track
             (sqrt ((dcaXY track)\<^sup>2 + (dcaZ track)\<^sup>2))
             (map (getNsigmaTPC track) (kPIDspecies this))
             (map (getNsigmaTOF track) (kPIDspecies this)))
          sels st)"

subsection \<open>The two evaluations as member functions\<close>

text \<open>
  \<^verbatim>\<open>isSelectedMinimal\<close> and \<^verbatim>\<open>getCutContainer\<close> are member functions that are not declared
  \<^verbatim>\<open>const\<close>, and they receive the track by reference. To state what a call leaves behind,
  both are written a second time, statement by statement, as programs of the state monad.
  The state is the pair of the selection object (\<^verbatim>\<open>*this\<close>) and the track behind the
  reference.
\<close>

record Evaluation =
  theSelection :: FemtoUniverseTrackSelection
  theTrack :: Track

text \<open>
  A program reads a member of the selection object or an accessor of the track. It calls a
  member function of the \<open>i\<close>-th registered criterion through the reference \<open>sel\<close> of the
  range-based loop: the callee is a program on the criterion, and the criterion as the
  callee leaves it replaces the \<open>i\<close>-th entry of \<open>mSelections\<close>.
\<close>

definition readMember :: "(FemtoUniverseTrackSelection \<Rightarrow> 'a) \<Rightarrow> (Evaluation, 'a) state" where
  "readMember f = State (\<lambda>s. (f (theSelection s), s))"

definition readTrack :: "(Track \<Rightarrow> 'a) \<Rightarrow> (Evaluation, 'a) state" where
  "readTrack f = State (\<lambda>s. (f (theTrack s), s))"

definition onSelection :: "nat \<Rightarrow> (SelectionCriterion, 'a) state \<Rightarrow> (Evaluation, 'a) state" where
  "onSelection i call =
    State (\<lambda>s. case run_state call (mSelections (theSelection s) ! i) of
                  (a, sel') \<Rightarrow>
                    (a, s\<lparr>theSelection :=
                           (theSelection s)\<lparr>mSelections :=
                             (mSelections (theSelection s))[i := sel']\<rparr>\<rparr>))"

text \<open>
  The member functions of the criterion belong to the absent class
  \<^verbatim>\<open>FemtoUniverseSelection\<close>. \<^verbatim>\<open>checkSelectionSetBitPID\<close> is a parameter of the programs
  below, a call on the criterion that takes the observable and the PID container and
  returns the new PID container.
\<close>

definition getSelectionVariable_call :: "(SelectionCriterion, TrackSel) state" where
  \<comment> \<open>Modelled from the spec: the accessor of the variable kind, as a call on a criterion.\<close>
  "getSelectionVariable_call = State (\<lambda>sel. (getSelectionVariable sel, sel))"

definition checkSelectionSetBit_call ::
  "real \<Rightarrow> 'w::len word \<Rightarrow> nat \<Rightarrow> (SelectionCriterion, 'w word \<times> nat) state" where
  \<comment> \<open>Modelled from the spec: \<^verbatim>\<open>testAndSetBit\<close> as a call on a criterion; the spec gives it
     no effect but on the container and the bit index, so the criterion is left as it is.\<close>
  "checkSelectionSetBit_call observable cutContainer counter =
    State (\<lambda>sel. (checkSelectionSetBit sel observable cutContainer counter, sel))"

text \<open>
  A call leaves the criterion when, from every criterion, it ends with the criterion it
  started from.
\<close>

definition leavesCriterion :: "(SelectionCriterion, 'a) state \<Rightarrow> bool" where
  "leavesCriterion call = (\<forall>sel. snd (run_state call sel) = sel)"

text \<open>
  \<^verbatim>\<open>isSelectedMinimal\<close>: the reads of the track, the two vectors of n-sigma values, the
  chain of early returns and the PID block.
\<close>

primrec pidTPCLoop_onState :: "real list \<Rightarrow> bool \<Rightarrow> (Evaluation, bool) state" where
  "pidTPCLoop_onState [] isFulfilled = State_Monad.return isFulfilled"
| "pidTPCLoop_onState (pidTPCVal # rest) isFulfilled = do {
     below \<leftarrow> readMember (\<lambda>this. \<bar>pidTPCVal - nSigmaPIDOffsetTPC this\<bar> < nSigmaPIDMax this);
     pidTPCLoop_onState rest (if below then True else isFulfilled)
   }"

definition returnFalseIf ::
  "(FemtoUniverseTrackSelection \<Rightarrow> bool) \<Rightarrow> (Evaluation, bool) state \<Rightarrow> (Evaluation, bool) state" where
  "returnFalseIf cond rest = do {
     c \<leftarrow> readMember cond;
     if c then State_Monad.return False else rest
   }"

definition isSelectedMinimal_onState :: "(Evaluation, bool) state" where
  "isSelectedMinimal_onState = do {
     pT \<leftarrow> readTrack pt;
     eta \<leftarrow> readTrack eta;
     tpcNClsF \<leftarrow> readTrack tpcNClsFound;
     tpcRClsC \<leftarrow> readTrack tpcCrossedRowsOverFindableCls;
     tpcNClsC \<leftarrow> readTrack tpcNClsCrossedRows;
     tpcNClsS \<leftarrow> readTrack tpcNClsShared;
     tpcNClsFracS \<leftarrow> readTrack tpcFractionSharedCls;
     itsNCls \<leftarrow> readTrack itsNCls;
     itsNClsIB \<leftarrow> readTrack itsNClsInnerBarrel;
     dcaXY \<leftarrow> readTrack dcaXY;
     dcaZ \<leftarrow> readTrack dcaZ;
     dca \<leftarrow> readTrack Track.dcaXY;
     species \<leftarrow> readMember kPIDspecies;
     pidTPC \<leftarrow> readTrack (\<lambda>track. map (getNsigmaTPC track) species);
     pidTOF \<leftarrow> readTrack (\<lambda>track. map (getNsigmaTOF track) species);
     returnFalseIf (\<lambda>this. nPtMinSel this > 0 \<and> pT < pTMin this) (
     returnFalseIf (\<lambda>this. nPtMaxSel this > 0 \<and> pT > pTMax this) (
     returnFalseIf (\<lambda>this. nEtaSel this > 0 \<and> \<bar>eta\<bar> > etaMax this) (
     returnFalseIf (\<lambda>this. nTPCnMinSel this > 0 \<and> tpcNClsF < nClsMin this) (
     returnFalseIf (\<lambda>this. nTPCfMinSel this > 0 \<and> tpcRClsC < fClsMin this) (
     returnFalseIf (\<lambda>this. nTPCcMinSel this > 0 \<and> tpcNClsC < cTPCMin this) (
     returnFalseIf (\<lambda>this. nTPCsMaxSel this > 0 \<and> tpcNClsS > sTPCMax this) (
     returnFalseIf (\<lambda>this. nTPCsFracMaxSel this > 0 \<and> tpcNClsFracS > fracsTPCMax this) (
     returnFalseIf (\<lambda>this. nITScMinSel this > 0 \<and> itsNCls < nITSclsMin this) (
     returnFalseIf (\<lambda>this. nITScIbMinSel this > 0 \<and> itsNClsIB < nITSclsIbMin this) (
     returnFalseIf (\<lambda>this. nDCAxyMaxSel this > 0 \<and> \<bar>dcaXY\<bar> > dcaXYMax this) (
     returnFalseIf (\<lambda>this. nDCAzMaxSel this > 0 \<and> \<bar>dcaZ\<bar> > dcaZMax this) (
     returnFalseIf (\<lambda>this. nDCAMinSel this > 0 \<and> \<bar>dca\<bar> < dcaMin this) (
     returnFalseIf (\<lambda>this. nRejectNotPropagatedTracks this \<and> \<bar>dca\<bar> > 1000) (do {
       active \<leftarrow> readMember (\<lambda>this. nPIDnSigmaSel this > 0);
       if active
       then do {
         isFulfilled \<leftarrow> pidTPCLoop_onState pidTPC False;
         if \<not> isFulfilled then State_Monad.return isFulfilled else State_Monad.return True
       }
       else State_Monad.return True
     }))))))))))))))
   }"

text \<open>
  \<^verbatim>\<open>getCutContainer\<close>: the loop over the species for a criterion on the PID n-sigma, the
  body of the loop over the criteria (the index \<open>idx\<close> stands for the reference \<open>sel\<close>), the
  loop, and the function. As in \<open>switchObservable\<close>, the observables are read from the track
  where the \<^verbatim>\<open>switch\<close> uses them.
\<close>

primrec pidSpeciesLoop_onState ::
  "(real \<Rightarrow> 'w::len word \<Rightarrow> (SelectionCriterion, 'w word) state) \<Rightarrow> nat \<Rightarrow>
   real list \<Rightarrow> real list \<Rightarrow> nat list \<Rightarrow> 'w word \<Rightarrow> (Evaluation, 'w word) state" where
  "pidSpeciesLoop_onState checkSelectionSetBitPID idx pidTPC pidTOF [] outputPID =
    State_Monad.return outputPID"
| "pidSpeciesLoop_onState checkSelectionSetBitPID idx pidTPC pidTOF (i # rest) outputPID = do {
     offsetTPC \<leftarrow> readMember nSigmaPIDOffsetTPC;
     offsetTOF \<leftarrow> readMember nSigmaPIDOffsetTOF;
     let pidTPCVal = pidTPC ! i - offsetTPC;
     let pidTOFVal = pidTOF ! i - offsetTOF;
     let pidComb = sqrt (pidTPCVal * pidTPCVal + pidTOFVal * pidTOFVal);
     outputPID \<leftarrow> onSelection idx (checkSelectionSetBitPID pidTPCVal outputPID);
     outputPID \<leftarrow> onSelection idx (checkSelectionSetBitPID pidComb outputPID);
     pidSpeciesLoop_onState checkSelectionSetBitPID idx pidTPC pidTOF rest outputPID
   }"

definition cutContainerBody_onState ::
  "(real \<Rightarrow> 'w::len word \<Rightarrow> (SelectionCriterion, 'w word) state) \<Rightarrow>
   real \<Rightarrow> real list \<Rightarrow> real list \<Rightarrow> nat \<Rightarrow> real \<times> 'w word \<times> nat \<times> 'w word \<Rightarrow>
   (Evaluation, real \<times> 'w word \<times> nat \<times> 'w word) state" where
  "cutContainerBody_onState checkSelectionSetBitPID dca pidTPC pidTOF idx st =
    (case st of (observable, output, counter, outputPID) \<Rightarrow> do {
       selVariable \<leftarrow> onSelection idx getSelectionVariable_call;
       if selVariable = kPIDnSigmaMax
       then do {
         nSpecies \<leftarrow> readMember (\<lambda>this. length (kPIDspecies this));
         outputPID \<leftarrow> pidSpeciesLoop_onState checkSelectionSetBitPID idx pidTPC pidTOF
                        [0..<nSpecies] outputPID;
         State_Monad.return (observable, output, counter, outputPID)
       }
       else do {
         observable \<leftarrow> readTrack (\<lambda>track. switchObservable track dca selVariable observable);
         (output, counter) \<leftarrow> onSelection idx (checkSelectionSetBit_call observable output counter);
         State_Monad.return (observable, output, counter, outputPID)
       }
     })"

primrec forEachSelection_onState ::
  "(nat \<Rightarrow> 'l \<Rightarrow> (Evaluation, 'l) state) \<Rightarrow> nat list \<Rightarrow> 'l \<Rightarrow> (Evaluation, 'l) state" where
  "forEachSelection_onState body [] st = State_Monad.return st"
| "forEachSelection_onState body (idx # rest) st = do {
     st \<leftarrow> body idx st;
     forEachSelection_onState body rest st
   }"

definition getCutContainer_onState ::
  "(real \<Rightarrow> 'w::len word \<Rightarrow> (SelectionCriterion, 'w word) state) \<Rightarrow>
   (Evaluation, 'w word \<times> 'w word) state" where
  "getCutContainer_onState checkSelectionSetBitPID = do {
     let output = 0;
     let counter = 0;
     let outputPID = 0;
     dcaXY \<leftarrow> readTrack dcaXY;
     dcaZ \<leftarrow> readTrack dcaZ;
     let dca = sqrt (dcaXY\<^sup>2 + dcaZ\<^sup>2);
     species \<leftarrow> readMember kPIDspecies;
     pidTPC \<leftarrow> readTrack (\<lambda>track. map (getNsigmaTPC track) species);
     pidTOF \<leftarrow> readTrack (\<lambda>track. map (getNsigmaTOF track) species);
     let observable = 0;
     nSelections \<leftarrow> readMember (\<lambda>this. length (mSelections this));
     (observable, output, counter, outputPID) \<leftarrow>
       forEachSelection_onState
         (cutContainerBody_onState checkSelectionSetBitPID dca pidTPC pidTOF)
         [0..<nSelections] (observable, output, counter, outputPID);
     State_Monad.return (output, outputPID)
   }"

subsection \<open>Inputs for the closed examples\<close>

text \<open>
  A selection object in which no cut is active: every count is zero, the thresholds have
  the values the constructor gives them (zero for the three members it leaves out), no
  species and no criterion is registered.
\<close>

definition noCuts :: FemtoUniverseTrackSelection where
  "noCuts =
    \<lparr>mHistogramRegistry = None, mSelections = [],
     nRejectNotPropagatedTracks = False,
     nPtMinSel = 0, nPtMaxSel = 0, nEtaSel = 0, nTPCnMinSel = 0, nTPCfMinSel = 0,
     nTPCcMinSel = 0, nTPCsMaxSel = 0, nTPCsFracMaxSel = 0, nITScMinSel = 0,
     nITScIbMinSel = 0, nDCAxyMaxSel = 0, nDCAzMaxSel = 0, nDCAMinSel = 0,
     nPIDnSigmaSel = 0,
     pTMin = 9999999, pTMax = - 9999999, etaMax = - 9999999, nClsMin = 9999999,
     fClsMin = 9999999, cTPCMin = 9999999, sTPCMax = - 9999999, fracsTPCMax = - 9999999,
     nITSclsMin = 0, nITSclsIbMin = 0, dcaXYMax = - 9999999, dcaZMax = - 9999999,
     dcaMin = 9999999, nSigmaPIDMax = 9999999, nSigmaPIDOffsetTPC = 0,
     nSigmaPIDOffsetTOF = 0, kPIDspecies = []\<rparr>"

text \<open>A track: a positive particle of 1.2 GeV/c, with every n-sigma value equal to 10.\<close>

definition aTrack :: Track where
  "aTrack =
    \<lparr>sign = 1, pt = 12 / 10, eta = 3 / 10, tpcNClsFound = 120,
     tpcCrossedRowsOverFindableCls = 95 / 100, tpcNClsCrossedRows = 130, tpcNClsShared = 2,
     tpcFractionSharedCls = 2 / 120, itsNCls = 6, itsNClsInnerBarrel = 3,
     dcaXY = 1 / 10, dcaZ = 2 / 10, tpcNSigma = (\<lambda>pid. 10), tofNSigma = (\<lambda>pid. 10)\<rparr>"

text \<open>
  A stand-in for \<^verbatim>\<open>checkSelectionSetBitPID\<close> in the closed examples: the PID container is
  shifted by one place and the new bit put in the lowest place.
\<close>

definition appendBitPID :: "SelectionCriterion \<Rightarrow> real \<Rightarrow> 'w::len word \<Rightarrow> 'w word" where
  "appendBitPID sel observable cutContainer =
    (if isSelected sel observable then push_bit 1 cutContainer OR 1 else push_bit 1 cutContainer)"

text \<open>
  A stand-in for \<^verbatim>\<open>getMinimalSelection\<close> in the closed examples: the threshold of the
  first registered criterion on the variable, zero when there is none.
\<close>

definition firstThreshold :: "SelectionCriterion list \<Rightarrow> TrackSel \<Rightarrow> SelectionType \<Rightarrow> real" where
  "firstThreshold sels selVar selType =
    (case filter (\<lambda>sel. getSelectionVariable sel = selVar) sels of
       [] \<Rightarrow> 0
     | sel # rest \<Rightarrow> threshold sel)"

text \<open>Nine criteria, none of them on the PID n-sigma.\<close>

definition nineCriteria :: "SelectionCriterion list" where
  "nineCriteria =
    [\<lparr>variableKind = kSign, comparisonKind = kEqual, threshold = 1\<rparr>,
     \<lparr>variableKind = kpTMin, comparisonKind = kLowerLimit, threshold = 5 / 10\<rparr>,
     \<lparr>variableKind = kpTMax, comparisonKind = kUpperLimit, threshold = 4\<rparr>,
     \<lparr>variableKind = kEtaMax, comparisonKind = kAbsUpperLimit, threshold = 8 / 10\<rparr>,
     \<lparr>variableKind = kTPCnClsMin, comparisonKind = kLowerLimit, threshold = 80\<rparr>,
     \<lparr>variableKind = kTPCfClsMin, comparisonKind = kLowerLimit, threshold = 83 / 100\<rparr>,
     \<lparr>variableKind = kTPCcRowsMin, comparisonKind = kLowerLimit, threshold = 70\<rparr>,
     \<lparr>variableKind = kTPCsClsMax, comparisonKind = kUpperLimit, threshold = 160\<rparr>,
     \<lparr>variableKind = kITSnClsMin, comparisonKind = kLowerLimit, threshold = 4\<rparr>]"

text \<open>
  A selection object whose only cut is a minimal distance of closest approach of 0.15 cm,
  with the one criterion registered for it.
\<close>

definition dcaMinCriterion :: SelectionCriterion where
  "dcaMinCriterion =
    \<lparr>variableKind = kDCAMin, comparisonKind = kAbsLowerLimit, threshold = 15 / 100\<rparr>"

definition onlyDCAMin :: FemtoUniverseTrackSelection where
  "onlyDCAMin = noCuts\<lparr>mSelections := [dcaMinCriterion], nDCAMinSel := 1, dcaMin := 15 / 100\<rparr>"

text \<open>
  The stand-in for \<^verbatim>\<open>checkSelectionSetBitPID\<close> as a call on the criterion, and a second
  one that writes the criterion: it resets the threshold.
\<close>

definition appendBitPID_call ::
  "real \<Rightarrow> 'w::len word \<Rightarrow> (SelectionCriterion, 'w word) state" where
  "appendBitPID_call observable cutContainer =
    State (\<lambda>sel. (appendBitPID sel observable cutContainer, sel))"

definition resettingPID_call ::
  "real \<Rightarrow> 'w::len word \<Rightarrow> (SelectionCriterion, 'w word) state" where
  "resettingPID_call observable cutContainer =
    State (\<lambda>sel. (appendBitPID sel observable cutContainer,
                  sel\<lparr>threshold := 0\<rparr>))"

text \<open>
  A selection object with one criterion on the PID n-sigma and one species, together with
  the track of the examples.
\<close>

definition pidCriterion :: SelectionCriterion where
  "pidCriterion =
    \<lparr>variableKind = kPIDnSigmaMax, comparisonKind = kAbsUpperLimit, threshold = 3\<rparr>"

definition anEvaluation :: Evaluation where
  "anEvaluation =
    \<lparr>theSelection = noCuts\<lparr>mSelections := [pidCriterion], nPIDnSigmaSel := 1,
                             nSigmaPIDMax := 3, kPIDspecies := [2]\<rparr>,
     theTrack = aTrack\<rparr>"

section \<open>Properties of the catalogue\<close>

lemmas TrackSel_defs =
  kSign_def kpTMin_def kpTMax_def kEtaMax_def kTPCnClsMin_def kTPCfClsMin_def
  kTPCcRowsMin_def kTPCsClsMax_def kTPCfracsClsMax_def kITSnClsMin_def kITSnClsIbMin_def
  kDCAxyMax_def kDCAzMax_def kDCAMin_def kPIDnSigmaMax_def

lemma length_kSelectionNames: "length kSelectionNames = kNtrackSelection"
  by (simp add: kSelectionNames_def kNtrackSelection_def)

lemma distinct_kSelectionNames: "distinct kSelectionNames"
  by (simp add: kSelectionNames_def)

lemma findSelectionIndex_from_hit:
  assumes "i < kNtrackSelection" and "k \<le> i"
  shows "findSelectionIndex_from (prefix @ kSelectionNames ! i) prefix k = int i"
  using assms
proof (induction "i - k" arbitrary: k)
  case 0
  then have "k = i" by simp
  with \<open>i < kNtrackSelection\<close> show ?case
    by (simp add: findSelectionIndex_from.simps [of _ _ i])
next
  case (Suc d)
  then have less: "k < i" and kN: "k < kNtrackSelection" and d: "d = i - (k + 1)"
    by simp_all
  from less kN \<open>i < kNtrackSelection\<close> have "kSelectionNames ! i \<noteq> kSelectionNames ! k"
    using distinct_kSelectionNames
    by (simp add: nth_eq_iff_index_eq length_kSelectionNames)
  moreover have "findSelectionIndex_from (prefix @ kSelectionNames ! i) prefix (k + 1) = int i"
    using Suc.hyps(1) [OF d] Suc.prems less by simp
  ultimately show ?case
    using kN by (simp add: findSelectionIndex_from.simps [of _ _ k])
qed

lemma findSelectionIndex_from_miss:
  assumes "\<And>j. k \<le> j \<Longrightarrow> j < kNtrackSelection \<Longrightarrow> obs \<noteq> prefix @ kSelectionNames ! j"
  shows "findSelectionIndex_from obs prefix k = - 1"
  using assms
proof (induction "kNtrackSelection - k" arbitrary: k)
  case 0
  then show ?case
    by (simp add: findSelectionIndex_from.simps [of _ _ k])
next
  case (Suc d)
  then have kN: "k < kNtrackSelection" and d: "d = kNtrackSelection - (k + 1)"
    by simp_all
  have "findSelectionIndex_from obs prefix (k + 1) = - 1"
    using Suc.hyps(1) [OF d] Suc.prems by simp
  moreover have "obs \<noteq> prefix @ kSelectionNames ! k"
    using Suc.prems kN by simp
  ultimately show ?case
    using kN by (simp add: findSelectionIndex_from.simps [of _ _ k])
qed

text \<open>
  C1. The catalogue of comparison kinds, as \<^verbatim>\<open>getSelectionType\<close> returns it for each of
  the fifteen selection variables. Fourteen entries are the ones the specification lists;
  the entry of \<open>kDCAMin\<close> is \<open>kAbsUpperLimit\<close>, not the \<open>kAbsLowerLimit\<close> of a minimal
  distance of closest approach.
\<close>

theorem getSelectionType_catalogue:
  "getSelectionType kSign = Some kEqual \<and>
   getSelectionType kpTMin = Some kLowerLimit \<and>
   getSelectionType kpTMax = Some kUpperLimit \<and>
   getSelectionType kEtaMax = Some kAbsUpperLimit \<and>
   getSelectionType kTPCnClsMin = Some kLowerLimit \<and>
   getSelectionType kTPCfClsMin = Some kLowerLimit \<and>
   getSelectionType kTPCcRowsMin = Some kLowerLimit \<and>
   getSelectionType kTPCsClsMax = Some kUpperLimit \<and>
   getSelectionType kTPCfracsClsMax = Some kUpperLimit \<and>
   getSelectionType kITSnClsMin = Some kLowerLimit \<and>
   getSelectionType kITSnClsIbMin = Some kLowerLimit \<and>
   getSelectionType kDCAxyMax = Some kAbsUpperLimit \<and>
   getSelectionType kDCAzMax = Some kAbsUpperLimit \<and>
   getSelectionType kDCAMin = Some kAbsUpperLimit \<and>
   getSelectionType kDCAMin \<noteq> Some kAbsLowerLimit \<and>
   getSelectionType kPIDnSigmaMax = Some kAbsUpperLimit"
  by (simp add: getSelectionType_def kSelectionTypes_def kNtrackSelection_def TrackSel_defs)

text \<open>
  C10. The lookup of a selection name round-trips: for every selection variable \<open>iSel\<close> of
  the catalogue and every prefix, \<^verbatim>\<open>findSelectionIndex\<close> applied to the name that
  \<^verbatim>\<open>getSelectionName\<close> builds (with the empty suffix) returns \<open>iSel\<close>, the fifteen names
  being pairwise distinct; and
  \<^verbatim>\<open>findSelectionIndex\<close> returns \<open>-1\<close> exactly for the strings that are not the prefix
  followed by one of the fifteen names.
\<close>

theorem findSelectionIndex_roundtrip:
  "distinct kSelectionNames \<and>
   (iSel < kNtrackSelection \<longrightarrow>
      (\<exists>name. getSelectionName iSel prefix [] = Some name \<and>
              findSelectionIndex name prefix = int iSel)) \<and>
   (findSelectionIndex obs prefix = - 1 \<longleftrightarrow>
      obs \<notin> (\<lambda>name. prefix @ name) ` set kSelectionNames)"
proof (intro conjI impI)
  show "distinct kSelectionNames"
    by (rule distinct_kSelectionNames)
next
  assume "iSel < kNtrackSelection"
  then show "\<exists>name. getSelectionName iSel prefix [] = Some name \<and>
      findSelectionIndex name prefix = int iSel"
    by (simp add: getSelectionName_def findSelectionIndex_def findSelectionIndex_from_hit)
next
  show "findSelectionIndex obs prefix = - 1 \<longleftrightarrow>
      obs \<notin> (\<lambda>name. prefix @ name) ` set kSelectionNames"
  proof
    assume miss: "findSelectionIndex obs prefix = - 1"
    show "obs \<notin> (\<lambda>name. prefix @ name) ` set kSelectionNames"
    proof
      assume "obs \<in> (\<lambda>name. prefix @ name) ` set kSelectionNames"
      then obtain i where "i < kNtrackSelection" and "obs = prefix @ kSelectionNames ! i"
        by (auto simp add: in_set_conv_nth length_kSelectionNames)
      then have "findSelectionIndex obs prefix = int i"
        by (simp add: findSelectionIndex_def findSelectionIndex_from_hit)
      with miss show False by simp
    qed
  next
    assume "obs \<notin> (\<lambda>name. prefix @ name) ` set kSelectionNames"
    then have "\<And>j. j < kNtrackSelection \<Longrightarrow> obs \<noteq> prefix @ kSelectionNames ! j"
      by (auto simp add: length_kSelectionNames)
    then show "findSelectionIndex obs prefix = - 1"
      by (simp add: findSelectionIndex_def findSelectionIndex_from_miss)
  qed
qed

theorem findSelectionIndex_roundtrip_witness:
  "kDCAMin < kNtrackSelection \<and>
   getSelectionName kDCAMin ''ConfTrk'' [] = Some ''ConfTrkDCAMin'' \<and>
   findSelectionIndex ''ConfTrkDCAMin'' ''ConfTrk'' = 13 \<and>
   findSelectionIndex ''ConfTrkdcaMin'' ''ConfTrk'' = - 1"
proof -
  have valid: "kDCAMin < kNtrackSelection"
    by (simp add: kDCAMin_def kNtrackSelection_def)
  have name: "getSelectionName kDCAMin ''ConfTrk'' [] = Some ''ConfTrkDCAMin''"
    by (simp add: getSelectionName_def kSelectionNames_def kNtrackSelection_def kDCAMin_def)
  have "findSelectionIndex ''ConfTrkDCAMin'' ''ConfTrk'' = int kDCAMin"
    using findSelectionIndex_roundtrip [of kDCAMin "''ConfTrk''" "[]"] valid name by simp
  moreover have "findSelectionIndex ''ConfTrkdcaMin'' ''ConfTrk'' = - 1"
    using findSelectionIndex_roundtrip [of kDCAMin "''ConfTrk''" "''ConfTrkdcaMin''"]
    by (simp add: kSelectionNames_def)
  ultimately show ?thesis
    using valid name by (simp add: kDCAMin_def)
qed


section \<open>Properties of the fast filter\<close>

lemma pidTPCLoop_iff:
  "pidTPCLoop this vals isFulfilled \<longleftrightarrow>
     isFulfilled \<or> (\<exists>v \<in> set vals. \<bar>v - nSigmaPIDOffsetTPC this\<bar> < nSigmaPIDMax this)"
  by (induction vals arbitrary: isFulfilled) auto

lemma isSelectedMinimal_iff:
  "isSelectedMinimal this track \<longleftrightarrow>
     \<not> (nPtMinSel this > 0 \<and> pt track < pTMin this) \<and>
     \<not> (nPtMaxSel this > 0 \<and> pt track > pTMax this) \<and>
     \<not> (nEtaSel this > 0 \<and> \<bar>eta track\<bar> > etaMax this) \<and>
     \<not> (nTPCnMinSel this > 0 \<and> tpcNClsFound track < nClsMin this) \<and>
     \<not> (nTPCfMinSel this > 0 \<and> tpcCrossedRowsOverFindableCls track < fClsMin this) \<and>
     \<not> (nTPCcMinSel this > 0 \<and> tpcNClsCrossedRows track < cTPCMin this) \<and>
     \<not> (nTPCsMaxSel this > 0 \<and> tpcNClsShared track > sTPCMax this) \<and>
     \<not> (nTPCsFracMaxSel this > 0 \<and> tpcFractionSharedCls track > fracsTPCMax this) \<and>
     \<not> (nITScMinSel this > 0 \<and> itsNCls track < nITSclsMin this) \<and>
     \<not> (nITScIbMinSel this > 0 \<and> itsNClsInnerBarrel track < nITSclsIbMin this) \<and>
     \<not> (nDCAxyMaxSel this > 0 \<and> \<bar>dcaXY track\<bar> > dcaXYMax this) \<and>
     \<not> (nDCAzMaxSel this > 0 \<and> \<bar>dcaZ track\<bar> > dcaZMax this) \<and>
     \<not> (nDCAMinSel this > 0 \<and> \<bar>dcaXY track\<bar> < dcaMin this) \<and>
     \<not> (nRejectNotPropagatedTracks this \<and> \<bar>dcaXY track\<bar> > 1000) \<and>
     (nPIDnSigmaSel this \<le> 0 \<or>
      (\<exists>pid \<in> set (kPIDspecies this).
         \<bar>getNsigmaTPC track pid - nSigmaPIDOffsetTPC this\<bar> < nSigmaPIDMax this))"
proof -
  have chain: "\<And>c b. (if c then False else b) = (\<not> c \<and> b)"
    by simp
  have last: "\<And>(n::int) L. (if 0 < n then (if \<not> L then L else True) else True) = (n \<le> 0 \<or> L)"
    by auto
  have pid: "pidTPCLoop this (map (getNsigmaTPC track) (kPIDspecies this)) False =
      (\<exists>pid \<in> set (kPIDspecies this).
         \<bar>getNsigmaTPC track pid - nSigmaPIDOffsetTPC this\<bar> < nSigmaPIDMax this)"
    by (simp add: pidTPCLoop_iff)
  show ?thesis
    unfolding isSelectedMinimal_def Let_def
    by (simp only: chain last pid)
qed


text \<open>
  C5. When the PID criterion is active (\<open>nPIDnSigmaSel > 0\<close>), \<^verbatim>\<open>isSelectedMinimal\<close> accepts a
  track exactly when the checks before the PID block accept it (the same call with the PID
  count set to zero) and, for at least one configured species, the TPC n-sigma value
  shifted by the TPC offset is in magnitude strictly below the collapsed maximum
  \<open>nSigmaPIDMax\<close>: the PID portion is a disjunction over the species, but its comparison is
  strict. A track whose best species lies on the bound itself, which an absolute upper
  limit accepts, is rejected (the strict comparison of C6).
\<close>

theorem isSelectedMinimal_PID_any_species:
  "0 < nPIDnSigmaSel this \<Longrightarrow>
   isSelectedMinimal this track \<longleftrightarrow>
     isSelectedMinimal (this\<lparr>nPIDnSigmaSel := 0\<rparr>) track \<and>
     (\<exists>pid \<in> set (kPIDspecies this).
        \<bar>getNsigmaTPC track pid - nSigmaPIDOffsetTPC this\<bar> < nSigmaPIDMax this)"
  by (simp add: isSelectedMinimal_iff)

text \<open>
  With the maximum 3, the offset 0 and two species: the values 2.9 and 10 are accepted,
  the values 3.1 and 10 are rejected, and so are the values 3 and 10, although the
  criterion with the threshold 3 selects the value 3.
\<close>

theorem isSelectedMinimal_PID_any_species_witness:
  "0 < nPIDnSigmaSel (noCuts\<lparr>nPIDnSigmaSel := 1, nSigmaPIDMax := 3, kPIDspecies := [2, 3]\<rparr>) \<and>
   isSelectedMinimal (noCuts\<lparr>nPIDnSigmaSel := 1, nSigmaPIDMax := 3, kPIDspecies := [2, 3]\<rparr>)
     (aTrack\<lparr>tpcNSigma := (\<lambda>pid. if pid = 2 then 29 / 10 else 10)\<rparr>) \<and>
   \<not> isSelectedMinimal (noCuts\<lparr>nPIDnSigmaSel := 1, nSigmaPIDMax := 3, kPIDspecies := [2, 3]\<rparr>)
     (aTrack\<lparr>tpcNSigma := (\<lambda>pid. if pid = 2 then 31 / 10 else 10)\<rparr>) \<and>
   isSelected
     \<lparr>variableKind = kPIDnSigmaMax, comparisonKind = kAbsUpperLimit, threshold = 3\<rparr> 3 \<and>
   \<not> isSelectedMinimal (noCuts\<lparr>nPIDnSigmaSel := 1, nSigmaPIDMax := 3, kPIDspecies := [2, 3]\<rparr>)
     (aTrack\<lparr>tpcNSigma := (\<lambda>pid. if pid = 2 then 3 else 10)\<rparr>)"
  using isSelectedMinimal_PID_any_species
      [of "noCuts\<lparr>nPIDnSigmaSel := 1, nSigmaPIDMax := 3, kPIDspecies := [2, 3]\<rparr>"
          "aTrack\<lparr>tpcNSigma := (\<lambda>pid. if pid = 2 then 29 / 10 else 10)\<rparr>"]
    isSelectedMinimal_PID_any_species
      [of "noCuts\<lparr>nPIDnSigmaSel := 1, nSigmaPIDMax := 3, kPIDspecies := [2, 3]\<rparr>"
          "aTrack\<lparr>tpcNSigma := (\<lambda>pid. if pid = 2 then 31 / 10 else 10)\<rparr>"]
    isSelectedMinimal_PID_any_species
      [of "noCuts\<lparr>nPIDnSigmaSel := 1, nSigmaPIDMax := 3, kPIDspecies := [2, 3]\<rparr>"
          "aTrack\<lparr>tpcNSigma := (\<lambda>pid. if pid = 2 then 3 else 10)\<rparr>"]
  by (simp add: noCuts_def aTrack_def isSelectedMinimal_iff getNsigmaTPC_def isSelected_def)

text \<open>
  C7. With the rejection of tracks that were not propagated switched on, every track whose
  \<open>dcaXY\<close> exceeds 1000 in magnitude is rejected by \<^verbatim>\<open>isSelectedMinimal\<close>, whatever the
  other members of the selection object are.
\<close>

theorem isSelectedMinimal_rejects_not_propagated:
  "nRejectNotPropagatedTracks this \<Longrightarrow> \<bar>dcaXY track\<bar> > 1000 \<Longrightarrow>
   \<not> isSelectedMinimal this track"
  by (simp add: isSelectedMinimal_iff)

theorem isSelectedMinimal_rejects_not_propagated_witness:
  "nRejectNotPropagatedTracks (noCuts\<lparr>nRejectNotPropagatedTracks := True\<rparr>) \<and>
   \<bar>dcaXY (aTrack\<lparr>dcaXY := 2000\<rparr>)\<bar> > 1000 \<and>
   isSelectedMinimal noCuts (aTrack\<lparr>dcaXY := 2000\<rparr>) \<and>
   \<not> isSelectedMinimal (noCuts\<lparr>nRejectNotPropagatedTracks := True\<rparr>) (aTrack\<lparr>dcaXY := 2000\<rparr>)"
proof -
  have flag: "nRejectNotPropagatedTracks (noCuts\<lparr>nRejectNotPropagatedTracks := True\<rparr>)"
    by simp
  have far: "\<bar>dcaXY (aTrack\<lparr>dcaXY := 2000\<rparr>)\<bar> > 1000"
    by simp
  have "isSelectedMinimal noCuts (aTrack\<lparr>dcaXY := 2000\<rparr>)"
    by (simp add: isSelectedMinimal_iff noCuts_def)
  with flag far isSelectedMinimal_rejects_not_propagated [OF flag far] show ?thesis
    by simp
qed

text \<open>
  C6. The boundaries of \<^verbatim>\<open>isSelectedMinimal\<close>, evaluated. A lower limit accepts the
  observable equal to the threshold, an absolute upper limit accepts the observable equal
  to minus the threshold and rejects one above it. The PID n-sigma bound, an absolute upper
  limit in the catalogue, is tested with a strict comparison: a track whose only species
  has the n-sigma value \<open>-3\<close> is rejected under the maximum 3, although the criterion itself
  (\<open>isSelected\<close>, inclusive) selects that value.
\<close>

theorem isSelectedMinimal_boundaries:
  "isSelectedMinimal (noCuts\<lparr>nPtMinSel := 1, pTMin := 5 / 10\<rparr>) (aTrack\<lparr>pt := 5 / 10\<rparr>) \<and>
   isSelectedMinimal (noCuts\<lparr>nEtaSel := 1, etaMax := 8 / 10\<rparr>) (aTrack\<lparr>eta := - 8 / 10\<rparr>) \<and>
   \<not> isSelectedMinimal (noCuts\<lparr>nEtaSel := 1, etaMax := 8 / 10\<rparr>) (aTrack\<lparr>eta := 81 / 100\<rparr>) \<and>
   isSelected \<lparr>variableKind = kPIDnSigmaMax, comparisonKind = kAbsUpperLimit, threshold = 3\<rparr> (- 3) \<and>
   \<not> isSelectedMinimal (noCuts\<lparr>nPIDnSigmaSel := 1, nSigmaPIDMax := 3, kPIDspecies := [2]\<rparr>)
       (aTrack\<lparr>tpcNSigma := (\<lambda>pid. - 3)\<rparr>)"
  by (simp add: isSelectedMinimal_iff noCuts_def aTrack_def isSelected_def getNsigmaTPC_def)

text \<open>
  C8 (amended). \<^verbatim>\<open>isSelectedMinimal\<close> does not depend on an observable when every check
  that reads it is inactive. The transverse momentum is read by the checks of \<open>PtMin\<close> and
  \<open>PtMax\<close>, so both counts have to be zero; \<open>dcaXY\<close> is read by the checks of \<open>DCAxyMax\<close>
  and \<open>DCAMin\<close> and by the rejection of tracks that were not propagated, so both counts
  have to be zero and the rejection switched off; each other observable is read by one
  check. The sign and the TOF n-sigma values are never read.
\<close>

theorem isSelectedMinimal_inactive_kinds:
  "isSelectedMinimal this (track\<lparr>sign := x\<rparr>) = isSelectedMinimal this track \<and>
   (nPtMinSel this = 0 \<and> nPtMaxSel this = 0 \<longrightarrow>
      isSelectedMinimal this (track\<lparr>pt := x\<rparr>) = isSelectedMinimal this track) \<and>
   (nEtaSel this = 0 \<longrightarrow>
      isSelectedMinimal this (track\<lparr>eta := x\<rparr>) = isSelectedMinimal this track) \<and>
   (nTPCnMinSel this = 0 \<longrightarrow>
      isSelectedMinimal this (track\<lparr>tpcNClsFound := x\<rparr>) = isSelectedMinimal this track) \<and>
   (nTPCfMinSel this = 0 \<longrightarrow>
      isSelectedMinimal this (track\<lparr>tpcCrossedRowsOverFindableCls := x\<rparr>) =
      isSelectedMinimal this track) \<and>
   (nTPCcMinSel this = 0 \<longrightarrow>
      isSelectedMinimal this (track\<lparr>tpcNClsCrossedRows := x\<rparr>) = isSelectedMinimal this track) \<and>
   (nTPCsMaxSel this = 0 \<longrightarrow>
      isSelectedMinimal this (track\<lparr>tpcNClsShared := x\<rparr>) = isSelectedMinimal this track) \<and>
   (nTPCsFracMaxSel this = 0 \<longrightarrow>
      isSelectedMinimal this (track\<lparr>tpcFractionSharedCls := x\<rparr>) = isSelectedMinimal this track) \<and>
   (nITScMinSel this = 0 \<longrightarrow>
      isSelectedMinimal this (track\<lparr>itsNCls := x\<rparr>) = isSelectedMinimal this track) \<and>
   (nITScIbMinSel this = 0 \<longrightarrow>
      isSelectedMinimal this (track\<lparr>itsNClsInnerBarrel := x\<rparr>) = isSelectedMinimal this track) \<and>
   (nDCAxyMaxSel this = 0 \<and> nDCAMinSel this = 0 \<and> \<not> nRejectNotPropagatedTracks this \<longrightarrow>
      isSelectedMinimal this (track\<lparr>dcaXY := x\<rparr>) = isSelectedMinimal this track) \<and>
   (nDCAzMaxSel this = 0 \<longrightarrow>
      isSelectedMinimal this (track\<lparr>dcaZ := x\<rparr>) = isSelectedMinimal this track) \<and>
   (nPIDnSigmaSel this = 0 \<longrightarrow>
      isSelectedMinimal this (track\<lparr>tpcNSigma := f\<rparr>) = isSelectedMinimal this track) \<and>
   isSelectedMinimal this (track\<lparr>tofNSigma := f\<rparr>) = isSelectedMinimal this track"
  by (simp add: isSelectedMinimal_iff getNsigmaTPC_def)

theorem isSelectedMinimal_inactive_kinds_witness:
  "nPtMinSel noCuts = 0 \<and> nPtMaxSel noCuts = 0 \<and> nEtaSel noCuts = 0 \<and>
   nTPCnMinSel noCuts = 0 \<and> nTPCfMinSel noCuts = 0 \<and> nTPCcMinSel noCuts = 0 \<and>
   nTPCsMaxSel noCuts = 0 \<and> nTPCsFracMaxSel noCuts = 0 \<and> nITScMinSel noCuts = 0 \<and>
   nITScIbMinSel noCuts = 0 \<and> nDCAxyMaxSel noCuts = 0 \<and> nDCAMinSel noCuts = 0 \<and>
   \<not> nRejectNotPropagatedTracks noCuts \<and> nDCAzMaxSel noCuts = 0 \<and>
   nPIDnSigmaSel noCuts = 0 \<and>
   isSelectedMinimal noCuts (aTrack\<lparr>pt := 50\<rparr>) = isSelectedMinimal noCuts aTrack \<and>
   isSelectedMinimal noCuts (aTrack\<lparr>eta := 50\<rparr>) = isSelectedMinimal noCuts aTrack \<and>
   isSelectedMinimal noCuts (aTrack\<lparr>tpcNClsFound := 50\<rparr>) = isSelectedMinimal noCuts aTrack \<and>
   isSelectedMinimal noCuts (aTrack\<lparr>tpcCrossedRowsOverFindableCls := 50\<rparr>) =
     isSelectedMinimal noCuts aTrack \<and>
   isSelectedMinimal noCuts (aTrack\<lparr>tpcNClsCrossedRows := 50\<rparr>) =
     isSelectedMinimal noCuts aTrack \<and>
   isSelectedMinimal noCuts (aTrack\<lparr>tpcNClsShared := 50\<rparr>) = isSelectedMinimal noCuts aTrack \<and>
   isSelectedMinimal noCuts (aTrack\<lparr>tpcFractionSharedCls := 50\<rparr>) =
     isSelectedMinimal noCuts aTrack \<and>
   isSelectedMinimal noCuts (aTrack\<lparr>itsNCls := 50\<rparr>) = isSelectedMinimal noCuts aTrack \<and>
   isSelectedMinimal noCuts (aTrack\<lparr>itsNClsInnerBarrel := 50\<rparr>) =
     isSelectedMinimal noCuts aTrack \<and>
   isSelectedMinimal noCuts (aTrack\<lparr>dcaXY := 50\<rparr>) = isSelectedMinimal noCuts aTrack \<and>
   isSelectedMinimal noCuts (aTrack\<lparr>dcaZ := 50\<rparr>) = isSelectedMinimal noCuts aTrack \<and>
   isSelectedMinimal noCuts (aTrack\<lparr>tpcNSigma := (\<lambda>pid. 50)\<rparr>) =
     isSelectedMinimal noCuts aTrack \<and>
   nEtaSel (noCuts\<lparr>nPtMaxSel := 1, pTMax := 15 / 10\<rparr>) = 0 \<and>
   \<not> isSelectedMinimal (noCuts\<lparr>nPtMaxSel := 1, pTMax := 15 / 10\<rparr>) (aTrack\<lparr>pt := 2\<rparr>) \<and>
   \<not> isSelectedMinimal (noCuts\<lparr>nPtMaxSel := 1, pTMax := 15 / 10\<rparr>)
       (aTrack\<lparr>pt := 2, eta := 50\<rparr>)"
proof -
  have counts:
    "nPtMinSel noCuts = 0" "nPtMaxSel noCuts = 0" "nEtaSel noCuts = 0"
    "nTPCnMinSel noCuts = 0" "nTPCfMinSel noCuts = 0" "nTPCcMinSel noCuts = 0"
    "nTPCsMaxSel noCuts = 0" "nTPCsFracMaxSel noCuts = 0" "nITScMinSel noCuts = 0"
    "nITScIbMinSel noCuts = 0" "nDCAxyMaxSel noCuts = 0" "nDCAMinSel noCuts = 0"
    "\<not> nRejectNotPropagatedTracks noCuts" "nDCAzMaxSel noCuts = 0"
    "nPIDnSigmaSel noCuts = 0"
    by (simp_all add: noCuts_def)
  have other: "nEtaSel (noCuts\<lparr>nPtMaxSel := 1, pTMax := 15 / 10\<rparr>) = 0"
    by (simp add: noCuts_def)
  have rejected: "\<not> isSelectedMinimal (noCuts\<lparr>nPtMaxSel := 1, pTMax := 15 / 10\<rparr>)
      (aTrack\<lparr>pt := 2\<rparr>)"
    by (simp add: isSelectedMinimal_iff)
  show ?thesis
    using counts other rejected
      isSelectedMinimal_inactive_kinds [of noCuts 50 aTrack "\<lambda>pid. 50"]
      isSelectedMinimal_inactive_kinds
        [of "noCuts\<lparr>nPtMaxSel := 1, pTMax := 15 / 10\<rparr>" 50 "aTrack\<lparr>pt := 2\<rparr>" "\<lambda>pid. 50"]
    by simp
qed

text \<open>
  The claim C8 as it is stated fails where two checks read one observable. The kind
  \<open>PtMin\<close> has the count zero, the two tracks differ in \<open>pt\<close> only, and the check of \<open>PtMax\<close>
  tells them apart; the kind \<open>DCAxyMax\<close> has the count zero and the rejection of tracks
  that were not propagated is off, the two tracks differ in \<open>dcaXY\<close> only, and the check of
  \<open>DCAMin\<close> tells them apart.
\<close>

theorem isSelectedMinimal_inactive_kind_counterexample:
  "nPtMinSel (noCuts\<lparr>nPtMaxSel := 1, pTMax := 15 / 10\<rparr>) = 0 \<and>
   isSelectedMinimal (noCuts\<lparr>nPtMaxSel := 1, pTMax := 15 / 10\<rparr>) aTrack \<and>
   \<not> isSelectedMinimal (noCuts\<lparr>nPtMaxSel := 1, pTMax := 15 / 10\<rparr>) (aTrack\<lparr>pt := 2\<rparr>) \<and>
   nDCAxyMaxSel (noCuts\<lparr>nDCAMinSel := 1, dcaMin := 5 / 10\<rparr>) = 0 \<and>
   \<not> nRejectNotPropagatedTracks (noCuts\<lparr>nDCAMinSel := 1, dcaMin := 5 / 10\<rparr>) \<and>
   \<not> isSelectedMinimal (noCuts\<lparr>nDCAMinSel := 1, dcaMin := 5 / 10\<rparr>) aTrack \<and>
   isSelectedMinimal (noCuts\<lparr>nDCAMinSel := 1, dcaMin := 5 / 10\<rparr>) (aTrack\<lparr>dcaXY := 1\<rparr>)"
  by (simp add: isSelectedMinimal_iff noCuts_def aTrack_def)

section \<open>Properties of the bit-wise container\<close>

lemma forEachSelection_append:
  "forEachSelection body (xs @ ys) st =
    (let (xs', st') = forEachSelection body xs st;
         (ys', st'') = forEachSelection body ys st'
     in (xs' @ ys', st''))"
  by (induction xs arbitrary: st) (simp_all add: Let_def split: prod.splits)

lemma getCutContainer_eq:
  "getCutContainer P this track =
    (case cutLoopState P this track (mSelections this) (0, 0, 0, 0) of
       (observable, output, counter, outputPID) \<Rightarrow> (output, outputPID))"
  by (simp add: getCutContainer_def getCutContainer_call_def cutLoopState_def Let_def
      split: prod.splits)

lemma cutLoopState_Nil: "cutLoopState P this track [] st = st"
  by (simp add: cutLoopState_def)

lemma cutLoopState_append:
  "cutLoopState P this track (xs @ ys) st =
    cutLoopState P this track ys (cutLoopState P this track xs st)"
  by (simp add: cutLoopState_def forEachSelection_append Let_def split: prod.splits)

lemma cutLoopState_Cons_PID:
  "getSelectionVariable sel = kPIDnSigmaMax \<Longrightarrow>
   cutLoopState P this track (sel # sels) (observable, output, counter, outputPID) =
   cutLoopState P this track sels
     (observable, output, counter,
      pidSpeciesLoop P this (map (getNsigmaTPC track) (kPIDspecies this))
        (map (getNsigmaTOF track) (kPIDspecies this)) sel outputPID)"
  by (simp add: cutLoopState_def cutContainerBody_def Let_def split: prod.splits)

lemma cutLoopState_Cons_other:
  "getSelectionVariable sel \<noteq> kPIDnSigmaMax \<Longrightarrow>
   cutLoopState P this track (sel # sels) (observable, output, counter, outputPID) =
   cutLoopState P this track sels
     (switchObservable track (sqrt ((dcaXY track)\<^sup>2 + (dcaZ track)\<^sup>2))
        (getSelectionVariable sel) observable,
      (if isSelected sel
           (switchObservable track (sqrt ((dcaXY track)\<^sup>2 + (dcaZ track)\<^sup>2))
              (getSelectionVariable sel) observable)
       then output OR push_bit counter 1 else output),
      counter + 1, outputPID)"
  by (simp add: cutLoopState_def cutContainerBody_def checkSelectionSetBit_def Let_def
      split: prod.splits)

lemma cutLoopState_counter:
  "fst (snd (snd (cutLoopState P this track sels (observable, out, counter, outputPID)))) =
     counter + length (nonPID sels)"
proof (induction sels arbitrary: observable out counter outputPID)
  case Nil
  show ?case by (simp add: cutLoopState_Nil nonPID_def)
next
  case (Cons sel sels)
  show ?case
    by (cases "getSelectionVariable sel = kPIDnSigmaMax")
      (simp_all add: cutLoopState_Cons_PID cutLoopState_Cons_other Cons.IH nonPID_def)
qed

lemma cutLoopState_low_bits:
  "n < counter \<Longrightarrow>
   bit (fst (snd (cutLoopState P this track sels (observable, out, counter, outputPID)))) n =
   bit out n"
proof (induction sels arbitrary: observable out counter outputPID)
  case Nil
  show ?case by (simp add: cutLoopState_Nil)
next
  case (Cons sel sels)
  show ?case
  proof (cases "getSelectionVariable sel = kPIDnSigmaMax")
    case True
    with Cons show ?thesis
      by (simp add: cutLoopState_Cons_PID)
  next
    case False
    from Cons.prems have "n < counter + 1" and "n \<noteq> counter"
      by simp_all
    with False Cons.IH [of "counter + 1"] show ?thesis
      by (simp add: cutLoopState_Cons_other bit_simps)
  qed
qed

lemma cutLoopState_high_bits:
  "(\<And>m. counter \<le> m \<Longrightarrow> \<not> bit out m) \<Longrightarrow>
   fst (snd (snd (cutLoopState P this track sels (observable, out, counter, outputPID)))) \<le> n \<Longrightarrow>
   \<not> bit (fst (snd (cutLoopState P this track sels (observable, out, counter, outputPID)))) n"
proof (induction sels arbitrary: observable out counter outputPID)
  case Nil
  then show ?case by (simp add: cutLoopState_Nil)
next
  case (Cons sel sels)
  show ?case
  proof (cases "getSelectionVariable sel = kPIDnSigmaMax")
    case True
    with Cons.prems Cons.IH [of counter out] show ?thesis
      by (simp add: cutLoopState_Cons_PID)
  next
    case False
    let ?obs = "switchObservable track (sqrt ((dcaXY track)\<^sup>2 + (dcaZ track)\<^sup>2))
        (getSelectionVariable sel) observable"
    let ?out = "if isSelected sel ?obs then out OR push_bit counter 1 else out"
    have clear: "\<not> bit ?out m" if "counter + 1 \<le> m" for m
      using that Cons.prems(1) [of m]
      by (simp add: bit_simps)
    from False Cons.prems(2) have
      "fst (snd (snd (cutLoopState P this track sels (?obs, ?out, counter + 1, outputPID)))) \<le> n"
      by (simp add: cutLoopState_Cons_other)
    from Cons.IH [of "counter + 1" ?out ?obs outputPID, OF clear this] False show ?thesis
      by (simp add: cutLoopState_Cons_other)
  qed
qed

lemma cutLoopState_or_bit:
  "cutLoopState P this track sels (observable, out OR b, counter, outputPID) =
    (case cutLoopState P this track sels (observable, out, counter, outputPID) of
       (observable', out', counter', outputPID') \<Rightarrow>
         (observable', out' OR b, counter', outputPID'))"
proof (induction sels arbitrary: observable out counter outputPID)
  case Nil
  show ?case by (simp add: cutLoopState_Nil)
next
  case (Cons sel sels)
  show ?case
  proof (cases "getSelectionVariable sel = kPIDnSigmaMax")
    case True
    then show ?thesis
      by (simp add: cutLoopState_Cons_PID Cons.IH)
  next
    case False
    let ?obs = "switchObservable track (sqrt ((dcaXY track)\<^sup>2 + (dcaZ track)\<^sup>2))
        (getSelectionVariable sel) observable"
    let ?o = "if isSelected sel ?obs then out OR push_bit counter 1 else out"
    have "cutLoopState P this track (sel # sels) (observable, out OR b, counter, outputPID) =
        cutLoopState P this track sels (?obs, ?o OR b, counter + 1, outputPID)"
      unfolding cutLoopState_Cons_other [OF False] by (simp add: ac_simps)
    also have "\<dots> =
        (case cutLoopState P this track sels (?obs, ?o, counter + 1, outputPID) of
           (observable', out', counter', outputPID') \<Rightarrow>
             (observable', out' OR b, counter', outputPID'))"
      by (rule Cons.IH)
    also have "\<dots> =
        (case cutLoopState P this track (sel # sels) (observable, out, counter, outputPID) of
           (observable', out', counter', outputPID') \<Rightarrow>
             (observable', out' OR b, counter', outputPID'))"
      by (simp only: cutLoopState_Cons_other [OF False])
    finally show ?thesis .
  qed
qed

lemma switchObservable_unmatched:
  "kNtrackSelection \<le> selVariable \<Longrightarrow>
   switchObservable track dca selVariable observable = observable"
  by (simp add: switchObservable_def TrackSel_defs kNtrackSelection_def)

text \<open>
  C4 (amended). In \<^verbatim>\<open>getCutContainer\<close>, a criterion whose selection variable matches no
  \<^verbatim>\<open>case\<close> label (a value of 15 or more) is not skipped. The \<^verbatim>\<open>switch\<close> leaves
  \<open>observable\<close> with the value of the previous iteration (0 before the first), and
  \<^verbatim>\<open>checkSelectionSetBit\<close> is called all the same: the criterion is tested against that
  stale value, its bit, at the position given by the number of non-PID criteria before it,
  is set when the test passes, and the counter advances. Nothing else depends on the
  criterion: the two containers are those which the remaining criteria produce when the
  criterion only advances the counter, with that one bit added.
\<close>

theorem getCutContainer_unmatched_kind:
  assumes sels: "mSelections this = pre @ sel # post"
    and unmatched: "kNtrackSelection \<le> getSelectionVariable sel"
  shows "getCutContainer P this track =
    (case cutLoopState P this track pre (0, 0, 0, 0) of
       (observable, out, counter, outputPID) \<Rightarrow>
         (case cutLoopState P this track post (observable, out, counter + 1, outputPID) of
            (observable', out', counter', outputPID') \<Rightarrow>
              (if isSelected sel observable then out' OR push_bit counter 1 else out',
               outputPID')))
    \<and> fst (snd (snd (cutLoopState P this track pre (0, 0 :: 'w::len word, 0, 0 :: 'w word)))) =
        length (nonPID pre)"
proof
  obtain observable out counter outputPID where
    pre: "cutLoopState P this track pre (0, 0, 0, 0) = (observable, out, counter, outputPID)"
    by (cases "cutLoopState P this track pre (0, 0, 0, 0)") auto
  from unmatched have notPID: "getSelectionVariable sel \<noteq> kPIDnSigmaMax"
    by (simp add: kNtrackSelection_def kPIDnSigmaMax_def)
  have step: "cutLoopState P this track (sel # post) (observable, out, counter, outputPID) =
      cutLoopState P this track post
        (observable, (if isSelected sel observable then out OR push_bit counter 1 else out),
         counter + 1, outputPID)"
    using notPID unmatched by (simp add: cutLoopState_Cons_other switchObservable_unmatched)
  have "cutLoopState P this track (mSelections this) (0, 0, 0, 0) =
      cutLoopState P this track (sel # post) (observable, out, counter, outputPID)"
    by (simp add: sels cutLoopState_append pre)
  also have "\<dots> =
      (case cutLoopState P this track post (observable, out, counter + 1, outputPID) of
         (observable', out', counter', outputPID') \<Rightarrow>
           (observable',
            (if isSelected sel observable then out' OR push_bit counter 1 else out'),
            counter', outputPID'))"
    unfolding step by (simp add: cutLoopState_or_bit split: prod.splits)
  finally show "getCutContainer P this track =
    (case cutLoopState P this track pre (0, 0, 0, 0) of
       (observable, out, counter, outputPID) \<Rightarrow>
         (case cutLoopState P this track post (observable, out, counter + 1, outputPID) of
            (observable', out', counter', outputPID') \<Rightarrow>
              (if isSelected sel observable then out' OR push_bit counter 1 else out',
               outputPID')))"
    by (simp add: getCutContainer_eq pre split: prod.splits)
next
  show "fst (snd (snd (cutLoopState P this track pre (0, 0 :: 'w word, 0, 0 :: 'w word)))) =
      length (nonPID pre)"
    by (simp add: cutLoopState_counter)
qed

lemmas cutLoopState_eval =
  cutLoopState_Nil cutLoopState_Cons_other cutLoopState_Cons_PID getCutContainer_eq
  getSelectionVariable_def isSelected_def switchObservable_def TrackSel_defs

text \<open>
  The claim C4 as it is stated fails: a single criterion of the unmatched kind 15, an upper
  limit of 1, is tested against the initial value 0 of \<open>observable\<close> and sets bit 0 of the
  container.
\<close>

theorem getCutContainer_unmatched_kind_counterexample:
  "kNtrackSelection \<le>
     getSelectionVariable \<lparr>variableKind = 15, comparisonKind = kUpperLimit, threshold = 1\<rparr> \<and>
   getCutContainer appendBitPID
     (noCuts\<lparr>mSelections :=
        [\<lparr>variableKind = 15, comparisonKind = kUpperLimit, threshold = 1\<rparr>]\<rparr>) aTrack =
     (1 :: 8 word, 0 :: 8 word)"
  by (simp add: cutLoopState_eval kNtrackSelection_def)

theorem getCutContainer_unmatched_kind_witness:
  "mSelections (noCuts\<lparr>mSelections :=
      [\<lparr>variableKind = kpTMin, comparisonKind = kLowerLimit, threshold = 5 / 10\<rparr>,
       \<lparr>variableKind = 15, comparisonKind = kUpperLimit, threshold = 1\<rparr>,
       \<lparr>variableKind = kEtaMax, comparisonKind = kAbsUpperLimit, threshold = 8 / 10\<rparr>]\<rparr>) =
     [\<lparr>variableKind = kpTMin, comparisonKind = kLowerLimit, threshold = 5 / 10\<rparr>] @
     \<lparr>variableKind = 15, comparisonKind = kUpperLimit, threshold = 1\<rparr> #
     [\<lparr>variableKind = kEtaMax, comparisonKind = kAbsUpperLimit, threshold = 8 / 10\<rparr>] \<and>
   kNtrackSelection \<le>
     getSelectionVariable \<lparr>variableKind = 15, comparisonKind = kUpperLimit, threshold = 1\<rparr> \<and>
   getCutContainer appendBitPID
     (noCuts\<lparr>mSelections :=
        [\<lparr>variableKind = kpTMin, comparisonKind = kLowerLimit, threshold = 5 / 10\<rparr>,
         \<lparr>variableKind = 15, comparisonKind = kUpperLimit, threshold = 1\<rparr>,
         \<lparr>variableKind = kEtaMax, comparisonKind = kAbsUpperLimit, threshold = 8 / 10\<rparr>]\<rparr>)
     aTrack = (5 :: 8 word, 0 :: 8 word)"
proof -
  let ?a = "\<lparr>variableKind = kpTMin, comparisonKind = kLowerLimit, threshold = 5 / 10\<rparr>"
  let ?u = "\<lparr>variableKind = 15, comparisonKind = kUpperLimit, threshold = 1\<rparr>"
  let ?b = "\<lparr>variableKind = kEtaMax, comparisonKind = kAbsUpperLimit, threshold = 8 / 10\<rparr>"
  let ?E = "noCuts\<lparr>mSelections := [?a, ?u, ?b]\<rparr>"
  have sels: "mSelections ?E = [?a] @ ?u # [?b]"
    by simp
  have unmatched: "kNtrackSelection \<le> getSelectionVariable ?u"
    by (simp add: getSelectionVariable_def kNtrackSelection_def)
  have "getCutContainer appendBitPID ?E aTrack = (5 :: 8 word, 0 :: 8 word)"
    using getCutContainer_unmatched_kind [OF sels unmatched,
        of "appendBitPID :: SelectionCriterion \<Rightarrow> real \<Rightarrow> 8 word \<Rightarrow> 8 word" aTrack]
    by (simp add: cutLoopState_Nil cutLoopState_Cons_other getSelectionVariable_def
        isSelected_def switchObservable_def TrackSel_defs aTrack_def)
  with sels unmatched show ?thesis
    by simp
qed

text \<open>
  C2. The two paths use different distances of closest approach.
  \<^item> In \<^verbatim>\<open>isSelectedMinimal\<close> an active \<open>DCAMin\<close> check compares \<open>|dcaXY|\<close> alone with the
    collapsed minimum: the result is that of the same call without the check, and
    \<open>dcaMin \<le> |dcaXY|\<close>; when no other check is active the track is accepted exactly when
    \<open>dcaMin \<le> |dcaXY|\<close>; and \<open>dcaZ\<close> is read by the \<open>DCAzMax\<close> check only, so that with that
    check inactive the result does not depend on \<open>dcaZ\<close>.
  \<^item> In \<^verbatim>\<open>getCutContainer\<close> the bit of a criterion on \<open>kDCAMin\<close> (at the position given by the
    number of non-PID criteria before it, inside the container) is set exactly when the
    criterion selects \<open>sqrt (dcaXY\<^sup>2 + dcaZ\<^sup>2)\<close>.
  \<^item> The two values differ for every track with \<open>dcaZ \<noteq> 0\<close>, as for \<open>dcaXY = 0.1\<close> and
    \<open>dcaZ = 0.2\<close>.
\<close>

theorem dca_of_the_two_paths:
  "(0 < nDCAMinSel this \<longrightarrow>
      (isSelectedMinimal this track \<longleftrightarrow>
         isSelectedMinimal (this\<lparr>nDCAMinSel := 0\<rparr>) track \<and> dcaMin this \<le> \<bar>dcaXY track\<bar>)) \<and>
   (mSelections this = pre @ sel # post \<and> getSelectionVariable sel = kDCAMin \<and>
    length (nonPID pre) < LENGTH('w) \<longrightarrow>
      (bit (fst (getCutContainer P this track :: 'w::len word \<times> 'w word)) (length (nonPID pre)) \<longleftrightarrow>
         isSelected sel (sqrt ((dcaXY track)\<^sup>2 + (dcaZ track)\<^sup>2)))) \<and>
   (dcaZ track \<noteq> 0 \<longrightarrow> \<bar>dcaXY track\<bar> < sqrt ((dcaXY track)\<^sup>2 + (dcaZ track)\<^sup>2)) \<and>
   (0 < nDCAMinSel this \<and> nPtMinSel this \<le> 0 \<and> nPtMaxSel this \<le> 0 \<and> nEtaSel this \<le> 0 \<and>
    nTPCnMinSel this \<le> 0 \<and> nTPCfMinSel this \<le> 0 \<and> nTPCcMinSel this \<le> 0 \<and>
    nTPCsMaxSel this \<le> 0 \<and> nTPCsFracMaxSel this \<le> 0 \<and> nITScMinSel this \<le> 0 \<and>
    nITScIbMinSel this \<le> 0 \<and> nDCAxyMaxSel this \<le> 0 \<and> nDCAzMaxSel this \<le> 0 \<and>
    \<not> nRejectNotPropagatedTracks this \<and> nPIDnSigmaSel this \<le> 0 \<longrightarrow>
      (isSelectedMinimal this track \<longleftrightarrow> dcaMin this \<le> \<bar>dcaXY track\<bar>)) \<and>
   (nDCAzMaxSel this \<le> 0 \<longrightarrow>
      isSelectedMinimal this (track\<lparr>dcaZ := z\<rparr>) = isSelectedMinimal this track)"
proof (intro conjI)
  show "0 < nDCAMinSel this \<longrightarrow>
      (isSelectedMinimal this track \<longleftrightarrow>
         isSelectedMinimal (this\<lparr>nDCAMinSel := 0\<rparr>) track \<and> dcaMin this \<le> \<bar>dcaXY track\<bar>)"
    by (simp add: isSelectedMinimal_iff not_less conj_ac)
next
  show "0 < nDCAMinSel this \<and> nPtMinSel this \<le> 0 \<and> nPtMaxSel this \<le> 0 \<and> nEtaSel this \<le> 0 \<and>
    nTPCnMinSel this \<le> 0 \<and> nTPCfMinSel this \<le> 0 \<and> nTPCcMinSel this \<le> 0 \<and>
    nTPCsMaxSel this \<le> 0 \<and> nTPCsFracMaxSel this \<le> 0 \<and> nITScMinSel this \<le> 0 \<and>
    nITScIbMinSel this \<le> 0 \<and> nDCAxyMaxSel this \<le> 0 \<and> nDCAzMaxSel this \<le> 0 \<and>
    \<not> nRejectNotPropagatedTracks this \<and> nPIDnSigmaSel this \<le> 0 \<longrightarrow>
      (isSelectedMinimal this track \<longleftrightarrow> dcaMin this \<le> \<bar>dcaXY track\<bar>)"
    by (simp add: isSelectedMinimal_iff not_less)
next
  show "nDCAzMaxSel this \<le> 0 \<longrightarrow>
      isSelectedMinimal this (track\<lparr>dcaZ := z\<rparr>) = isSelectedMinimal this track"
    by (simp add: isSelectedMinimal_iff getNsigmaTPC_def)
next
  show "dcaZ track \<noteq> 0 \<longrightarrow> \<bar>dcaXY track\<bar> < sqrt ((dcaXY track)\<^sup>2 + (dcaZ track)\<^sup>2)"
  proof
    assume "dcaZ track \<noteq> 0"
    then have "(dcaXY track)\<^sup>2 < (dcaXY track)\<^sup>2 + (dcaZ track)\<^sup>2"
      by simp
    then have "sqrt ((dcaXY track)\<^sup>2) < sqrt ((dcaXY track)\<^sup>2 + (dcaZ track)\<^sup>2)"
      by (simp only: real_sqrt_less_iff)
    then show "\<bar>dcaXY track\<bar> < sqrt ((dcaXY track)\<^sup>2 + (dcaZ track)\<^sup>2)"
      by simp
  qed
next
  let ?dca = "sqrt ((dcaXY track)\<^sup>2 + (dcaZ track)\<^sup>2)"
  let ?n = "length (nonPID pre)"
  show "mSelections this = pre @ sel # post \<and> getSelectionVariable sel = kDCAMin \<and>
      ?n < LENGTH('w) \<longrightarrow>
      (bit (fst (getCutContainer P this track :: 'w word \<times> 'w word)) ?n \<longleftrightarrow>
         isSelected sel ?dca)"
  proof
    assume "mSelections this = pre @ sel # post \<and> getSelectionVariable sel = kDCAMin \<and>
        ?n < LENGTH('w)"
    then have sels: "mSelections this = pre @ sel # post"
      and kind: "getSelectionVariable sel = kDCAMin" and width: "?n < LENGTH('w)"
      by simp_all
    obtain observable out counter outputPID where
      pre: "cutLoopState P this track pre (0, 0 :: 'w word, 0, 0) =
        (observable, out, counter, outputPID)"
      by (cases "cutLoopState P this track pre (0, 0 :: 'w word, 0, 0)") auto
    have counter: "counter = ?n"
      using cutLoopState_counter [of P this track pre 0 "0 :: 'w word" 0 0] pre by simp
    have clear: "\<not> bit out ?n"
      using cutLoopState_high_bits [of 0 "0 :: 'w word" P this track pre 0 0 ?n] pre counter
      by simp
    from kind have notPID: "getSelectionVariable sel \<noteq> kPIDnSigmaMax"
      by (simp add: TrackSel_defs)
    from kind have obs: "switchObservable track ?dca (getSelectionVariable sel) observable = ?dca"
      by (simp add: switchObservable_def TrackSel_defs)
    let ?out = "if isSelected sel ?dca then out OR push_bit ?n 1 else out"
    have "cutLoopState P this track (mSelections this) (0, 0, 0, 0) =
        cutLoopState P this track post (?dca, ?out, ?n + 1, outputPID)"
      by (simp add: sels cutLoopState_append pre cutLoopState_Cons_other [OF notPID] obs counter)
    then have "fst (getCutContainer P this track) =
        fst (snd (cutLoopState P this track post (?dca, ?out, ?n + 1, outputPID)))"
      by (simp add: getCutContainer_eq split: prod.splits)
    also have "bit \<dots> ?n = bit ?out ?n"
      by (rule cutLoopState_low_bits) simp
    also have "\<dots> = isSelected sel ?dca"
      using clear width by (simp add: bit_simps)
    finally show "bit (fst (getCutContainer P this track :: 'w word \<times> 'w word)) ?n \<longleftrightarrow>
        isSelected sel ?dca" .
  qed
qed

theorem dca_of_the_two_paths_witness:
  "0 < nDCAMinSel onlyDCAMin \<and> nPtMinSel onlyDCAMin \<le> 0 \<and> nPtMaxSel onlyDCAMin \<le> 0 \<and>
   nEtaSel onlyDCAMin \<le> 0 \<and> nTPCnMinSel onlyDCAMin \<le> 0 \<and> nTPCfMinSel onlyDCAMin \<le> 0 \<and>
   nTPCcMinSel onlyDCAMin \<le> 0 \<and> nTPCsMaxSel onlyDCAMin \<le> 0 \<and>
   nTPCsFracMaxSel onlyDCAMin \<le> 0 \<and> nITScMinSel onlyDCAMin \<le> 0 \<and>
   nITScIbMinSel onlyDCAMin \<le> 0 \<and> nDCAxyMaxSel onlyDCAMin \<le> 0 \<and>
   nDCAzMaxSel onlyDCAMin \<le> 0 \<and> \<not> nRejectNotPropagatedTracks onlyDCAMin \<and>
   nPIDnSigmaSel onlyDCAMin \<le> 0 \<and>
   mSelections onlyDCAMin = [] @ dcaMinCriterion # [] \<and>
   getSelectionVariable dcaMinCriterion = kDCAMin \<and>
   length (nonPID []) < LENGTH(8) \<and>
   dcaMin onlyDCAMin = 15 / 100 \<and> dcaXY aTrack = 1 / 10 \<and> dcaZ aTrack = 2 / 10 \<and>
   dcaZ aTrack \<noteq> 0 \<and>
   \<bar>dcaXY aTrack\<bar> < sqrt ((dcaXY aTrack)\<^sup>2 + (dcaZ aTrack)\<^sup>2) \<and>
   \<not> isSelectedMinimal onlyDCAMin aTrack \<and>
   \<not> isSelectedMinimal onlyDCAMin (aTrack\<lparr>dcaZ := 50\<rparr>) \<and>
   isSelectedMinimal onlyDCAMin (aTrack\<lparr>dcaXY := 2 / 10\<rparr>) \<and>
   bit (fst (getCutContainer appendBitPID onlyDCAMin aTrack :: 8 word \<times> 8 word)) 0 \<and>
   \<not> bit (fst (getCutContainer appendBitPID onlyDCAMin (aTrack\<lparr>dcaZ := 0\<rparr>)
       :: 8 word \<times> 8 word)) 0"
proof -
  let ?P = "appendBitPID :: SelectionCriterion \<Rightarrow> real \<Rightarrow> 8 word \<Rightarrow> 8 word"
  let ?dca = "sqrt ((dcaXY aTrack)\<^sup>2 + (dcaZ aTrack)\<^sup>2)"
  note paths = dca_of_the_two_paths [of onlyDCAMin _ "[]" dcaMinCriterion "[]" ?P 50]
  have only: "0 < nDCAMinSel onlyDCAMin \<and> nPtMinSel onlyDCAMin \<le> 0 \<and>
      nPtMaxSel onlyDCAMin \<le> 0 \<and> nEtaSel onlyDCAMin \<le> 0 \<and> nTPCnMinSel onlyDCAMin \<le> 0 \<and>
      nTPCfMinSel onlyDCAMin \<le> 0 \<and> nTPCcMinSel onlyDCAMin \<le> 0 \<and>
      nTPCsMaxSel onlyDCAMin \<le> 0 \<and> nTPCsFracMaxSel onlyDCAMin \<le> 0 \<and>
      nITScMinSel onlyDCAMin \<le> 0 \<and> nITScIbMinSel onlyDCAMin \<le> 0 \<and>
      nDCAxyMaxSel onlyDCAMin \<le> 0 \<and> nDCAzMaxSel onlyDCAMin \<le> 0 \<and>
      \<not> nRejectNotPropagatedTracks onlyDCAMin \<and> nPIDnSigmaSel onlyDCAMin \<le> 0"
    by (simp add: onlyDCAMin_def noCuts_def)
  have config: "mSelections onlyDCAMin = [] @ dcaMinCriterion # [] \<and>
      getSelectionVariable dcaMinCriterion = kDCAMin \<and> length (nonPID []) < LENGTH(8)"
    by (simp add: onlyDCAMin_def dcaMinCriterion_def getSelectionVariable_def nonPID_def)
  have minimum: "dcaMin onlyDCAMin = 15 / 100"
    and xy: "dcaXY aTrack = 1 / 10" and z: "dcaZ aTrack = 2 / 10"
    by (simp_all add: onlyDCAMin_def aTrack_def)
  have minimal: "isSelectedMinimal onlyDCAMin track \<longleftrightarrow> 15 / 100 \<le> \<bar>dcaXY track\<bar>" for track
    using paths [of track, THEN conjunct2, THEN conjunct2, THEN conjunct2, THEN conjunct1,
        rule_format, OF only]
    by (simp only: minimum)
  have rejected: "\<not> isSelectedMinimal onlyDCAMin aTrack"
    by (simp add: minimal xy)
  have "isSelectedMinimal onlyDCAMin (aTrack\<lparr>dcaZ := 50\<rparr>) = isSelectedMinimal onlyDCAMin aTrack"
    by (rule paths [of aTrack, THEN conjunct2, THEN conjunct2, THEN conjunct2, THEN conjunct2,
          rule_format]) (simp add: only)
  with rejected have rejected_far: "\<not> isSelectedMinimal onlyDCAMin (aTrack\<lparr>dcaZ := 50\<rparr>)"
    by simp
  have accepted: "isSelectedMinimal onlyDCAMin (aTrack\<lparr>dcaXY := 2 / 10\<rparr>)"
    by (simp add: minimal)
  have container: "bit (fst (getCutContainer ?P onlyDCAMin track)) 0 \<longleftrightarrow>
      isSelected dcaMinCriterion (sqrt ((dcaXY track)\<^sup>2 + (dcaZ track)\<^sup>2))" for track
    using paths [of track, THEN conjunct2, THEN conjunct1, rule_format, OF config]
    by (simp add: nonPID_def)
  have "15 / 100 \<le> ?dca"
    by (rule real_le_rsqrt) (simp add: xy z power2_eq_square)
  then have set: "bit (fst (getCutContainer ?P onlyDCAMin aTrack)) 0"
    by (simp add: container isSelected_def dcaMinCriterion_def)
  have clear: "\<not> bit (fst (getCutContainer ?P onlyDCAMin (aTrack\<lparr>dcaZ := 0\<rparr>))) 0"
    by (simp add: container isSelected_def dcaMinCriterion_def xy)
  have differ: "\<bar>dcaXY aTrack\<bar> < ?dca"
    by (rule paths [of aTrack, THEN conjunct2, THEN conjunct2, THEN conjunct1, rule_format])
      (simp add: z)
  have z_nonzero: "dcaZ aTrack \<noteq> 0"
    by (simp add: z)
  from only config minimum xy z z_nonzero differ rejected rejected_far accepted set clear
  show ?thesis
    by (intro conjI) (simp_all only: simp_thms)
qed

section \<open>Properties of the configuration\<close>

text \<open>
  C3 (amended). \<^verbatim>\<open>init\<close> ends fatally exactly when a registry is supplied and the number
  of registered criteria that are not on the PID n-sigma exceeds the number of bits of the
  container type, \<open>8 * sizeof(CutContainerType)\<close>; a number equal to the width is accepted.
  The check stands inside the block guarded by \<^verbatim>\<open>if (registry)\<close>: without a registry it
  is not made.
\<close>

theorem init_fatal_iff:
  "isl (init sizeofCutContainerType particleTypeName trackTypeName getMinimalSelection
         registry this) \<longleftrightarrow>
   registry \<noteq> None \<and>
   8 * sizeofCutContainerType < getNSelections this - getNSelectionsOf this kPIDnSigmaMax"
  by (cases registry) (simp_all add: init_def Let_def)

theorem init_fatal_iff_witness:
  "isl (init 1 ''Tracks'' ''Tracks'' firstThreshold (Some [])
         (noCuts\<lparr>mSelections := nineCriteria\<rparr>)) \<and>
   \<not> isl (init 1 ''Tracks'' ''Tracks'' firstThreshold (Some [])
         (noCuts\<lparr>mSelections := take 8 nineCriteria\<rparr>))"
  using init_fatal_iff [of 1 "''Tracks''" "''Tracks''" firstThreshold "Some []"
      "noCuts\<lparr>mSelections := nineCriteria\<rparr>"]
    init_fatal_iff [of 1 "''Tracks''" "''Tracks''" firstThreshold "Some []"
      "noCuts\<lparr>mSelections := take 8 nineCriteria\<rparr>"]
  by (simp add: getNSelections_def getNSelectionsOf_def nineCriteria_def
      getSelectionVariable_def TrackSel_defs)

text \<open>
  The claim C3 as it is stated fails without a registry: nine criteria for a container of
  one byte, and \<^verbatim>\<open>init\<close> returns normally.
\<close>

theorem init_without_registry_counterexample:
  "getNSelections (noCuts\<lparr>mSelections := nineCriteria\<rparr>) -
     getNSelectionsOf (noCuts\<lparr>mSelections := nineCriteria\<rparr>) kPIDnSigmaMax = 9 \<and>
   8 * (1::nat) < 9 \<and>
   \<not> isl (init 1 ''Tracks'' ''Tracks'' firstThreshold None
         (noCuts\<lparr>mSelections := nineCriteria\<rparr>))"
  by (simp add: init_def getNSelections_def getNSelectionsOf_def nineCriteria_def
      getSelectionVariable_def TrackSel_defs)

section \<open>Properties of the evaluations as member functions\<close>

lemma run_readMember: "run_state (readMember f) s = (f (theSelection s), s)"
  by (simp add: readMember_def)

lemma run_readTrack: "run_state (readTrack f) s = (f (theTrack s), s)"
  by (simp add: readTrack_def)

lemma run_pidTPCLoop_onState:
  "run_state (pidTPCLoop_onState vals isFulfilled) s =
     (pidTPCLoop (theSelection s) vals isFulfilled, s)"
  by (induction vals arbitrary: isFulfilled) (simp_all add: run_readMember)

lemma run_returnFalseIf:
  "run_state rest s = (r, s) \<Longrightarrow>
   run_state (returnFalseIf cond rest) s = (if cond (theSelection s) then False else r, s)"
  by (simp add: returnFalseIf_def run_readMember)

lemma run_isSelectedMinimal_onState:
  "run_state isSelectedMinimal_onState s =
     (isSelectedMinimal (theSelection s) (theTrack s), s)"
  unfolding isSelectedMinimal_onState_def isSelectedMinimal_def Let_def
  apply (simp only: run_state_bind run_readTrack run_readMember prod.case)
  apply (rule run_returnFalseIf)+
  apply (simp add: run_readMember run_pidTPCLoop_onState)
  done

lemma run_onSelection:
  "leavesCriterion call \<Longrightarrow>
   run_state (onSelection i call) s =
     (fst (run_state call (mSelections (theSelection s) ! i)), s)"
  by (simp add: onSelection_def leavesCriterion_def case_prod_beta)

lemma leavesCriterion_getSelectionVariable_call: "leavesCriterion getSelectionVariable_call"
  by (simp add: leavesCriterion_def getSelectionVariable_call_def)

lemma leavesCriterion_checkSelectionSetBit_call:
  "leavesCriterion (checkSelectionSetBit_call observable cutContainer counter)"
  by (simp add: leavesCriterion_def checkSelectionSetBit_call_def)

lemma run_pidSpeciesLoop_onState:
  assumes "\<And>observable cutContainer. leavesCriterion (check observable cutContainer)"
  shows "run_state (pidSpeciesLoop_onState check idx pidTPC pidTOF is outputPID) s =
    (fold (\<lambda>i outputPID.
            let pidTPCVal = pidTPC ! i - nSigmaPIDOffsetTPC (theSelection s);
                pidTOFVal = pidTOF ! i - nSigmaPIDOffsetTOF (theSelection s);
                pidComb = sqrt (pidTPCVal * pidTPCVal + pidTOFVal * pidTOFVal);
                outputPID = fst (run_state (check pidTPCVal outputPID)
                                   (mSelections (theSelection s) ! idx));
                outputPID = fst (run_state (check pidComb outputPID)
                                   (mSelections (theSelection s) ! idx))
            in outputPID) is outputPID, s)"
  by (induction "is" arbitrary: outputPID)
    (simp_all add: run_readMember run_onSelection [OF assms] Let_def)

lemma run_onSelection_getSelectionVariable:
  "run_state (onSelection i getSelectionVariable_call) s =
     (getSelectionVariable (mSelections (theSelection s) ! i), s)"
  using run_onSelection [OF leavesCriterion_getSelectionVariable_call, of i s]
  by (simp add: getSelectionVariable_call_def)

lemma run_onSelection_checkSelectionSetBit:
  "run_state (onSelection i (checkSelectionSetBit_call observable cutContainer counter)) s =
     (checkSelectionSetBit (mSelections (theSelection s) ! i) observable cutContainer counter, s)"
  using run_onSelection [OF leavesCriterion_checkSelectionSetBit_call, of i _ _ _ s]
  by (simp add: checkSelectionSetBit_call_def)

lemma run_cutContainerBody_onState:
  assumes "\<And>observable cutContainer. leavesCriterion (check observable cutContainer)"
  shows "run_state (cutContainerBody_onState check dca pidTPC pidTOF idx st) s =
    (snd (cutContainerBody
            (\<lambda>sel observable cutContainer. fst (run_state (check observable cutContainer) sel))
            (theSelection s) (theTrack s) dca pidTPC pidTOF
            (mSelections (theSelection s) ! idx) st), s)"
  by (cases st)
    (simp add: cutContainerBody_onState_def cutContainerBody_def pidSpeciesLoop_def
      run_readMember run_readTrack run_pidSpeciesLoop_onState [OF assms]
      run_onSelection_getSelectionVariable run_onSelection_checkSelectionSetBit
      Let_def case_prod_beta)

lemma run_forEachSelection_onState:
  assumes "\<And>idx st. run_state (body_onState idx st) s =
      (snd (body (mSelections (theSelection s) ! idx) st), s)"
  shows "run_state (forEachSelection_onState body_onState idxs st) s =
    (snd (forEachSelection body (map ((!) (mSelections (theSelection s))) idxs) st), s)"
  by (induction idxs arbitrary: st) (simp_all add: assms case_prod_beta Let_def)

lemma run_getCutContainer_onState:
  assumes "\<And>observable cutContainer. leavesCriterion (check observable cutContainer)"
  shows "run_state (getCutContainer_onState check) s =
    (getCutContainer
       (\<lambda>sel observable cutContainer. fst (run_state (check observable cutContainer) sel))
       (theSelection s) (theTrack s), s)"
  by (simp add: getCutContainer_onState_def getCutContainer_def getCutContainer_call_def
      run_readMember run_readTrack Let_def case_prod_beta map_nth
      run_forEachSelection_onState
        [where body = "cutContainerBody
            (\<lambda>sel observable cutContainer. fst (run_state (check observable cutContainer) sel))
            (theSelection s) (theTrack s)
            (sqrt ((dcaXY (theTrack s))\<^sup>2 + (dcaZ (theTrack s))\<^sup>2))
            (map (getNsigmaTPC (theTrack s)) (kPIDspecies (theSelection s)))
            (map (getNsigmaTOF (theTrack s)) (kPIDspecies (theSelection s)))",
         OF run_cutContainerBody_onState [OF assms]])

text \<open>
  C9. The evaluation of a track is read-only. Run from any selection object and any track,
  the program of \<^verbatim>\<open>isSelectedMinimal\<close> and the program of \<^verbatim>\<open>getCutContainer\<close> end in the
  state they started from: the selection object (its criteria, collapsed thresholds,
  counts, species, offsets and flags) and the track are unchanged, and the values returned
  are those of \<open>isSelectedMinimal\<close> and \<open>getCutContainer\<close>. For \<^verbatim>\<open>getCutContainer\<close> this
  holds for every \<^verbatim>\<open>checkSelectionSetBitPID\<close> that leaves the criterion, as the
  specification describes it (it writes the PID container).
\<close>

theorem evaluation_is_read_only:
  assumes "\<And>observable cutContainer.
      leavesCriterion (checkSelectionSetBitPID observable cutContainer)"
  shows "run_state isSelectedMinimal_onState s =
      (isSelectedMinimal (theSelection s) (theTrack s), s) \<and>
    run_state (getCutContainer_onState checkSelectionSetBitPID) s =
      (getCutContainer
         (\<lambda>sel observable cutContainer.
            fst (run_state (checkSelectionSetBitPID observable cutContainer) sel))
         (theSelection s) (theTrack s), s)"
  using assms
  by (simp add: run_isSelectedMinimal_onState run_getCutContainer_onState)

theorem evaluation_is_read_only_witness:
  "(\<forall>observable (cutContainer :: 8 word).
      leavesCriterion (appendBitPID_call observable cutContainer)) \<and>
   snd (run_state isSelectedMinimal_onState anEvaluation) = anEvaluation \<and>
   fst (run_state isSelectedMinimal_onState anEvaluation) = False \<and>
   snd (run_state (getCutContainer_onState appendBitPID_call
          :: (Evaluation, 8 word \<times> 8 word) state) anEvaluation) = anEvaluation \<and>
   fst (run_state (getCutContainer_onState appendBitPID_call
          :: (Evaluation, 8 word \<times> 8 word) state) anEvaluation) = (0, 0) \<and>
   \<not> leavesCriterion (resettingPID_call 10 (0 :: 8 word)) \<and>
   snd (run_state (getCutContainer_onState resettingPID_call
          :: (Evaluation, 8 word \<times> 8 word) state) anEvaluation) \<noteq> anEvaluation"
proof -
  have leaves: "leavesCriterion (appendBitPID_call observable cutContainer)"
    for observable and cutContainer :: "8 word"
    by (simp add: leavesCriterion_def appendBitPID_call_def)
  note readOnly = evaluation_is_read_only [of appendBitPID_call anEvaluation, OF leaves]
  have minimal: "\<not> isSelectedMinimal (theSelection anEvaluation) (theTrack anEvaluation)"
    by (simp add: isSelectedMinimal_iff anEvaluation_def noCuts_def aTrack_def getNsigmaTPC_def)
  have comb: "\<not> sqrt 200 \<le> (3 :: real)"
    using real_less_rsqrt [of 3 200] by simp
  have container: "getCutContainer
      (\<lambda>sel observable cutContainer.
         fst (run_state (appendBitPID_call observable cutContainer) sel))
      (theSelection anEvaluation) (theTrack anEvaluation) = (0 :: 8 word, 0 :: 8 word)"
    by (simp add: getCutContainer_eq cutLoopState_Cons_PID cutLoopState_Nil
        pidSpeciesLoop_def anEvaluation_def pidCriterion_def getSelectionVariable_def
        appendBitPID_call_def appendBitPID_def isSelected_def aTrack_def noCuts_def
        getNsigmaTPC_def getNsigmaTOF_def Let_def comb)
  have writes: "\<not> leavesCriterion (resettingPID_call 10 (0 :: 8 word))"
    by (auto simp add: leavesCriterion_def resettingPID_call_def
        intro: exI [of _ pidCriterion] simp: pidCriterion_def)
  have changed: "snd (run_state (getCutContainer_onState resettingPID_call
      :: (Evaluation, 8 word \<times> 8 word) state) anEvaluation) \<noteq> anEvaluation"
    by (simp add: getCutContainer_onState_def cutContainerBody_onState_def
        run_readMember run_readTrack onSelection_def getSelectionVariable_call_def
        resettingPID_call_def anEvaluation_def pidCriterion_def getSelectionVariable_def
        aTrack_def noCuts_def getNsigmaTPC_def getNsigmaTOF_def Let_def case_prod_beta)
  from leaves readOnly minimal container writes changed show ?thesis
    by simp
qed

end
